theory Spec2Isabelle
  imports Complex_Main "HOL-Library.Char_ord" "HOL-Library.List_Lexorder"
    "HOL-Library.Option_ord" "HOL-Library.Sublist" "HOL-Library.Multiset"
    "HOL-Library.Code_Target_Nat"
begin

section \<open>The pharmacy directory: schema and route handlers\<close>

text \<open>
  The repository is a schema (models/pharmacy.js) and five route handlers
  (routes/pharmacies.js) on top of an object-document mapper and a document store.
  The handlers and the schema are embedded from the source. The mapper and the store are
  embedded as far as the handlers use them: construction of a document (setters and
  defaults), validation before a write, the unique index on \<open>licenseNumber\<close>, the
  timestamps, the casting of an id, and the queries \<open>find\<close>, \<open>findById\<close> and
  \<open>findByIdAndUpdate\<close>.

  Boundaries of the embedding:
  \<^item> a text is the sequence of its Unicode code points, and texts are compared and
    sorted by code point;
  \<^item> the Unicode case mapping and the regular expressions are not defined here: the
    handlers take them as a parameter, the \<open>platform\<close>, and the theorems hold for every
    platform;
  \<^item> a request body carries, for each path of the schema, either nothing or a value of
    the path's type (a number is a \<open>rat\<close>); values of another type, which the mapper
    would cast or refuse, are not in the body type; a value of the query string is a
    text;
  \<^item> a handler takes the state of the store and the time of the request (a number) and
    returns the response and the new state; requests are handled one at a time and the
    store itself does not fail.
\<close>

subsection \<open>Text\<close>

type_synonym jstring = "nat list"

text \<open>A text that is written here: the codes of its characters.\<close>

definition js :: "string \<Rightarrow> jstring" where
  "js s = map of_char s"

text \<open>
  White space and line terminators, which \<open>String.prototype.trim\<close> removes and the
  class \<^verbatim>\<open>\s\<close> of a pattern matches: tab, line feed, vertical tab, form feed,
  carriage return, space, no-break space, the other space separators of Unicode
  (U+1680, U+2000 to U+200A, U+202F, U+205F, U+3000), the line and paragraph separators
  (U+2028, U+2029) and the byte order mark (U+FEFF).
\<close>

definition isSpace :: "nat \<Rightarrow> bool" where
  "isSpace c =
     (c \<in> set [0x09, 0x0A, 0x0B, 0x0C, 0x0D, 0x20, 0xA0, 0x1680, 0x2028, 0x2029, 0x202F,
                0x205F, 0x3000, 0xFEFF]
      \<or> (0x2000 \<le> c \<and> c \<le> 0x200A))"

text \<open>The class \<^verbatim>\<open>\d\<close> of a pattern: the ten digits.\<close>

definition isDigit :: "nat \<Rightarrow> bool" where
  "isDigit c = (c \<in> set (js ''0123456789''))"

text \<open>\<open>String.prototype.trim\<close>: white space is removed at both ends.\<close>

definition trim :: "jstring \<Rightarrow> jstring" where
  "trim s = rev (dropWhile isSpace (rev (dropWhile isSpace s)))"

subsection \<open>The platform\<close>

text \<open>
  What the code calls and neither the repository nor this theory defines:
  \<^item> \<open>toLowerCase\<close> is \<open>String.prototype.toLowerCase\<close>, the case mapping of Unicode;
  \<^item> \<open>newRegExp_i\<close> is what \<^verbatim>\<open>new RegExp(value, 'i')\<close> and the store make of a
    value: \<open>None\<close> when the value is refused (the constructor throws, or the store
    rejects the pattern), and otherwise the test that tells of a text whether the
    pattern matches in it, letter case ignored.
\<close>

record platform =
  toLowerCase :: "jstring \<Rightarrow> jstring"
  newRegExp_i :: "jstring \<Rightarrow> (jstring \<Rightarrow> bool) option"

subsection \<open>The patterns of the schema\<close>

text \<open>
  \<^verbatim>\<open>/^([01]\d|2[0-3]):([0-5]\d)$/\<close>, the pattern of \<open>openTime\<close> and \<open>closeTime\<close>.
  It is anchored at both ends, so it matches exactly five characters.
\<close>

definition matchHHMM :: "jstring \<Rightarrow> bool" where
  "matchHHMM s =
     (case s of
        [h1, h2, c, m1, m2] \<Rightarrow>
          ((h1 \<in> set (js ''01'') \<and> isDigit h2)
           \<or> (h1 \<in> set (js ''2'') \<and> h2 \<in> set (js ''0123'')))
          \<and> c \<in> set (js '':'') \<and> m1 \<in> set (js ''012345'') \<and> isDigit m2
      | _ \<Rightarrow> False)"

text \<open>
  \<^verbatim>\<open>/\S+@\S+\.\S+/\<close>, the pattern of \<open>email\<close>. It is not anchored: the value matches
  when the pattern matches somewhere in it. \<open>matchDotTail\<close> is \<^verbatim>\<open>\S+\.\S+\<close> at the
  start of a text: in the leading run of characters that are not white space, a dot
  that is neither the first nor the last character of the run.
\<close>

definition atSign :: nat where
  "atSign = of_char CHR ''@''"

definition fullStop :: nat where
  "fullStop = of_char CHR ''.''"

definition matchDotTail :: "jstring \<Rightarrow> bool" where
  "matchDotTail s = (fullStop \<in> set (tl (butlast (takeWhile (\<lambda>c. \<not> isSpace c) s))))"

fun matchEmail :: "jstring \<Rightarrow> bool" where
  "matchEmail (a # b # s) =
     ((\<not> isSpace a \<and> b = atSign \<and> matchDotTail s) \<or> matchEmail (b # s))"
| "matchEmail _ = False"

subsection \<open>The data model\<close>

text \<open>
  A stored document may lack a path, as a document of the store can: every path that
  has no default is optional in the record, and validation decides which must be there.
\<close>

record address =
  street :: "jstring option"
  city :: "jstring option"
  state :: "jstring option"
  zipCode :: "jstring option"
  country :: "jstring option"
  latitude :: "rat option"
  longitude :: "rat option"

record openingHours =
  dayOfWeek :: "rat option"
  openTime :: "jstring option"
  closeTime :: "jstring option"

record pharmacy =
  oid :: nat
  name :: "jstring option"
  address :: "address option"
  phoneNumber :: "jstring option"
  email :: "jstring option"
  website :: "jstring option"
  licenseNumber :: "jstring option"
  servicesOffered :: "jstring list"
  openingHours :: "openingHours list"
  isActive :: bool
  createdAt :: "nat option"
  updatedAt :: "nat option"

text \<open>\<open>req.body\<close>: each path is there or not.\<close>

record body =
  body_name :: "jstring option"
  body_address :: "address option"
  body_phoneNumber :: "jstring option"
  body_email :: "jstring option"
  body_website :: "jstring option"
  body_licenseNumber :: "jstring option"
  body_servicesOffered :: "jstring list option"
  body_openingHours :: "openingHours list option"
  body_isActive :: "bool option"

text \<open>
  The collection, in insertion order, and the next generated id. A generated id is
  consumed when a document is constructed, saved or not.
\<close>

record db =
  docs :: "pharmacy list"
  nextId :: nat

subsection \<open>Validation\<close>

datatype path =
    Name | Address | Address_street | Address_city | Address_state | Address_zipCode
  | Address_country | PhoneNumber | Email | LicenseNumber
  | OpeningHours_dayOfWeek nat | OpeningHours_openTime nat | OpeningHours_closeTime nat

datatype kind = Required | Regexp | Min | Max

type_synonym verror = "path \<times> kind"

text \<open>\<open>required\<close> on a string path: the value is there and is not empty.\<close>

definition requiredString :: "path \<Rightarrow> jstring option \<Rightarrow> verror list" where
  "requiredString p v =
     (case v of
        None \<Rightarrow> [(p, Required)]
      | Some s \<Rightarrow> if s = [] then [(p, Required)] else [])"

text \<open>\<open>match\<close>: a missing or an empty value passes, any other value must match.\<close>

definition matchString :: "path \<Rightarrow> (jstring \<Rightarrow> bool) \<Rightarrow> jstring option \<Rightarrow> verror list" where
  "matchString p rx v =
     (case v of
        None \<Rightarrow> []
      | Some s \<Rightarrow> if s = [] \<or> rx s then [] else [(p, Regexp)])"

definition validateAddress :: "address option \<Rightarrow> verror list" where
  "validateAddress v =
     (case v of
        None \<Rightarrow> [(Address, Required)]
      | Some a \<Rightarrow>
          requiredString Address_street (street a) @ requiredString Address_city (city a)
          @ requiredString Address_state (state a) @ requiredString Address_zipCode (zipCode a)
          @ requiredString Address_country (country a))"

definition validateDayOfWeek :: "nat \<Rightarrow> rat option \<Rightarrow> verror list" where
  "validateDayOfWeek i v =
     (case v of
        None \<Rightarrow> [(OpeningHours_dayOfWeek i, Required)]
      | Some d \<Rightarrow>
          (if d < 0 then [(OpeningHours_dayOfWeek i, Min)] else [])
          @ (if 6 < d then [(OpeningHours_dayOfWeek i, Max)] else []))"

definition validateHours :: "nat \<Rightarrow> openingHours \<Rightarrow> verror list" where
  "validateHours i h =
     validateDayOfWeek i (dayOfWeek h)
     @ requiredString (OpeningHours_openTime i) (openTime h)
     @ matchString (OpeningHours_openTime i) matchHHMM (openTime h)
     @ requiredString (OpeningHours_closeTime i) (closeTime h)
     @ matchString (OpeningHours_closeTime i) matchHHMM (closeTime h)"

definition validateOpeningHours :: "openingHours list \<Rightarrow> verror list" where
  "validateOpeningHours hs = concat (map (\<lambda>(i, h). validateHours i h) (enumerate 0 hs))"

definition validate :: "pharmacy \<Rightarrow> verror list" where
  "validate d =
     requiredString Name (name d) @ validateAddress (address d)
     @ requiredString PhoneNumber (phoneNumber d) @ matchString Email matchEmail (email d)
     @ requiredString LicenseNumber (licenseNumber d)
     @ validateOpeningHours (openingHours d)"

subsection \<open>Constructing a document\<close>

text \<open>
  The setters of the schema: \<open>trim\<close> on every string path but the opening hours,
  \<open>lowercase\<close> on \<open>email\<close>; the default of \<open>country\<close>. The mapper runs the setters
  of a path from the last that the schema declares to the first: an \<open>email\<close> is
  lowercased, then trimmed.
\<close>

definition castAddress :: "address \<Rightarrow> address" where
  "castAddress a =
     a\<lparr>street := map_option trim (street a), city := map_option trim (city a),
       state := map_option trim (state a), zipCode := map_option trim (zipCode a),
       country := (case country a of None \<Rightarrow> Some (js ''USA'') | Some c \<Rightarrow> Some (trim c))\<rparr>"

definition castEmail :: "platform \<Rightarrow> jstring \<Rightarrow> jstring" where
  "castEmail P e = trim (toLowerCase P e)"

text \<open>
  \<^verbatim>\<open>new Pharmacy({ name: req.body.name, ..., openingHours: req.body.openingHours })\<close>
  with the generated id \<open>i\<close>. Eight paths are read from the body; \<open>isActive\<close> takes its
  default, an array path that is not given is empty, the timestamps are set by \<open>save\<close>.
\<close>

definition newPharmacy :: "platform \<Rightarrow> nat \<Rightarrow> body \<Rightarrow> pharmacy" where
  "newPharmacy P i b =
     \<lparr>oid = i,
      name = map_option trim (body_name b),
      address = map_option castAddress (body_address b),
      phoneNumber = map_option trim (body_phoneNumber b),
      email = map_option (castEmail P) (body_email b),
      website = map_option trim (body_website b),
      licenseNumber = map_option trim (body_licenseNumber b),
      servicesOffered = (case body_servicesOffered b of None \<Rightarrow> [] | Some xs \<Rightarrow> map trim xs),
      openingHours = (case body_openingHours b of None \<Rightarrow> [] | Some hs \<Rightarrow> hs),
      isActive = True,
      createdAt = None,
      updatedAt = None\<rparr>"

subsection \<open>The mapper and the store\<close>

text \<open>What a call can throw, as far as the handlers tell the cases apart.\<close>

datatype error =
    DuplicateKey  \<comment> \<open>\<open>err.code === 11000\<close>\<close>
  | ValidationError "verror list"  \<comment> \<open>\<open>err.name === 'ValidationError'\<close>, with \<open>err.errors\<close>\<close>
  | CastError_ObjectId  \<comment> \<open>\<open>err.kind === 'ObjectId'\<close>\<close>

text \<open>
  \<open>save\<close> of a new document: validation first, then the insertion, which the unique
  index on \<open>licenseNumber\<close> refuses when a stored document has the same value.
\<close>

definition save :: "db \<Rightarrow> nat \<Rightarrow> pharmacy \<Rightarrow> error + (pharmacy \<times> db)" where
  "save s now d =
     (if validate d \<noteq> [] then Inl (ValidationError (validate d))
      else if licenseNumber d \<in> set (map licenseNumber (docs s)) then Inl DuplicateKey
      else
        let d' = d\<lparr>createdAt := Some now, updatedAt := Some now\<rparr>
        in Inr (d', s\<lparr>docs := docs s @ [d']\<rparr>))"

text \<open>An id is written as 24 hexadecimal digits; anything else does not cast.\<close>

definition hexDigit :: "nat \<Rightarrow> nat option" where
  "hexDigit c =
     map_of (zip (js ''0123456789abcdefABCDEF'')
       [0, 1, 2, 3, 4, 5, 6, 7, 8, 9, 10, 11, 12, 13, 14, 15, 10, 11, 12, 13, 14, 15]) c"

fun hexValue :: "nat \<Rightarrow> jstring \<Rightarrow> nat option" where
  "hexValue acc [] = Some acc"
| "hexValue acc (c # cs) =
     (case hexDigit c of None \<Rightarrow> None | Some v \<Rightarrow> hexValue (16 * acc + v) cs)"

definition castObjectId :: "jstring \<Rightarrow> nat option" where
  "castObjectId i = (if length i = 24 then hexValue 0 i else None)"

definition findById :: "db \<Rightarrow> jstring \<Rightarrow> error + pharmacy option" where
  "findById s i =
     (case castObjectId i of
        None \<Rightarrow> Inl CastError_ObjectId
      | Some k \<Rightarrow> Inr (find (\<lambda>d. oid d = k) (docs s)))"

text \<open>
  The update \<^verbatim>\<open>{ $set: { ...req.body } }\<close>: the setters are applied to the paths that
  are given, and with \<open>runValidators\<close> the validators of those paths are run.
\<close>

definition castUpdate :: "platform \<Rightarrow> body \<Rightarrow> body" where
  "castUpdate P b =
     b\<lparr>body_name := map_option trim (body_name b),
       body_address := map_option castAddress (body_address b),
       body_phoneNumber := map_option trim (body_phoneNumber b),
       body_email := map_option (castEmail P) (body_email b),
       body_website := map_option trim (body_website b),
       body_licenseNumber := map_option trim (body_licenseNumber b),
       body_servicesOffered := map_option (map trim) (body_servicesOffered b)\<rparr>"

definition updateValidators :: "body \<Rightarrow> verror list" where
  "updateValidators u =
     (case body_name u of None \<Rightarrow> [] | Some n \<Rightarrow> requiredString Name (Some n))
     @ (case body_address u of None \<Rightarrow> [] | Some a \<Rightarrow> validateAddress (Some a))
     @ (case body_phoneNumber u of None \<Rightarrow> [] | Some p \<Rightarrow> requiredString PhoneNumber (Some p))
     @ matchString Email matchEmail (body_email u)
     @ (case body_licenseNumber u of None \<Rightarrow> []
        | Some l \<Rightarrow> requiredString LicenseNumber (Some l))
     @ (case body_openingHours u of None \<Rightarrow> [] | Some hs \<Rightarrow> validateOpeningHours hs)"

text \<open>\<open>$set\<close>: a path that is given replaces the stored one; \<open>updatedAt\<close> is set.\<close>

definition applySet :: "body \<Rightarrow> nat \<Rightarrow> pharmacy \<Rightarrow> pharmacy" where
  "applySet u now d =
     d\<lparr>name := (case body_name u of None \<Rightarrow> name d | Some n \<Rightarrow> Some n),
       address := (case body_address u of None \<Rightarrow> address d | Some a \<Rightarrow> Some a),
       phoneNumber := (case body_phoneNumber u of None \<Rightarrow> phoneNumber d | Some p \<Rightarrow> Some p),
       email := (case body_email u of None \<Rightarrow> email d | Some e \<Rightarrow> Some e),
       website := (case body_website u of None \<Rightarrow> website d | Some w \<Rightarrow> Some w),
       licenseNumber :=
         (case body_licenseNumber u of None \<Rightarrow> licenseNumber d | Some l \<Rightarrow> Some l),
       servicesOffered :=
         (case body_servicesOffered u of None \<Rightarrow> servicesOffered d | Some xs \<Rightarrow> xs),
       openingHours := (case body_openingHours u of None \<Rightarrow> openingHours d | Some hs \<Rightarrow> hs),
       isActive := (case body_isActive u of None \<Rightarrow> isActive d | Some a \<Rightarrow> a),
       updatedAt := Some now\<rparr>"

definition replaceDoc :: "nat \<Rightarrow> pharmacy \<Rightarrow> pharmacy list \<Rightarrow> pharmacy list" where
  "replaceDoc k d' ds = map (\<lambda>e. if oid e = k then d' else e) ds"

text \<open>
  \<^verbatim>\<open>findByIdAndUpdate(id, { $set: updateData }, { new: true, runValidators: true })\<close>:
  the id is cast, the update is cast and validated, the store applies it unless the
  unique index refuses it, and the document as updated is returned (\<open>None\<close> when there
  is no document of that id).
\<close>

definition findByIdAndUpdate ::
  "platform \<Rightarrow> db \<Rightarrow> nat \<Rightarrow> jstring \<Rightarrow> body \<Rightarrow> error + (pharmacy option \<times> db)" where
  "findByIdAndUpdate P s now i b =
     (case castObjectId i of
        None \<Rightarrow> Inl CastError_ObjectId
      | Some k \<Rightarrow>
          let u = castUpdate P b in
          if updateValidators u \<noteq> [] then Inl (ValidationError (updateValidators u))
          else
            (case find (\<lambda>d. oid d = k) (docs s) of
               None \<Rightarrow> Inr (None, s)
             | Some d \<Rightarrow>
                 let d' = applySet u now d in
                 if \<exists>e \<in> set (docs s). oid e \<noteq> k \<and> licenseNumber e = licenseNumber d'
                 then Inl DuplicateKey
                 else Inr (Some d', s\<lparr>docs := replaceDoc k d' (docs s)\<rparr>)))"

text \<open>
  \<open>save\<close> of a document that was loaded and whose \<open>isActive\<close> was then assigned: the
  document is validated; when the assignment changed the value (\<open>modified\<close>), the path
  and \<open>updatedAt\<close> are written, otherwise nothing is. The mapper validates the
  required and the modified paths of a loaded document; here all are, which gives the
  same result on every document that passes validation.
\<close>

definition saveIsActive :: "db \<Rightarrow> nat \<Rightarrow> pharmacy \<Rightarrow> bool \<Rightarrow> error + db" where
  "saveIsActive s now d modified =
     (if validate d \<noteq> [] then Inl (ValidationError (validate d))
      else if modified
      then Inr (s\<lparr>docs := map (\<lambda>e. if oid e = oid d
                                    then e\<lparr>isActive := isActive d, updatedAt := Some now\<rparr>
                                    else e) (docs s)\<rparr>)
      else Inr s)"

subsection \<open>Responses\<close>

datatype reply =
    Json_pharmacy pharmacy
  | Json_null
  | Json_list "pharmacy list"
  | Json_msg string
  | Json_errors string "verror list"
  | Send string

record response =
  status :: nat
  reply :: reply

subsection \<open>POST /\<close>

definition create_catch :: "error \<Rightarrow> response" where
  "create_catch err =
     (case err of
        DuplicateKey \<Rightarrow>
          \<lparr>status = 400, reply = Json_msg ''Pharmacy with this license number already exists.''\<rparr>
      | ValidationError errors \<Rightarrow> \<lparr>status = 400, reply = Json_errors ''Validation Error'' errors\<rparr>
      | _ \<Rightarrow> \<lparr>status = 500, reply = Send ''Server Error''\<rparr>)"

definition createPharmacy :: "platform \<Rightarrow> db \<Rightarrow> nat \<Rightarrow> body \<Rightarrow> response \<times> db" where
  "createPharmacy P s now b =
     (let d = newPharmacy P (nextId s) b;
          s1 = s\<lparr>nextId := Suc (nextId s)\<rparr>
      in case save s1 now d of
           Inr (saved, s2) \<Rightarrow> (\<lparr>status = 201, reply = Json_pharmacy saved\<rparr>, s2)
         | Inl err \<Rightarrow> (create_catch err, s1))"

subsection \<open>GET /\<close>







subsection \<open>GET /:id\<close>

definition get_catch :: "error \<Rightarrow> response" where
  "get_catch err =
     (case err of
        CastError_ObjectId \<Rightarrow>
          \<lparr>status = 404, reply = Json_msg ''Pharmacy not found (Invalid ID format)''\<rparr>
      | _ \<Rightarrow> \<lparr>status = 500, reply = Send ''Server Error''\<rparr>)"

definition getPharmacy :: "db \<Rightarrow> jstring \<Rightarrow> response" where
  "getPharmacy s i =
     (case findById s i of
        Inl err \<Rightarrow> get_catch err
      | Inr None \<Rightarrow> \<lparr>status = 404, reply = Json_msg ''Pharmacy not found''\<rparr>
      | Inr (Some p) \<Rightarrow>
          if \<not> isActive p then \<lparr>status = 404, reply = Json_msg ''Pharmacy not found''\<rparr>
          else \<lparr>status = 200, reply = Json_pharmacy p\<rparr>)"

subsection \<open>PUT /:id\<close>

definition update_catch :: "error \<Rightarrow> response" where
  "update_catch err =
     (case err of
        DuplicateKey \<Rightarrow>
          \<lparr>status = 400,
           reply = Json_msg ''Update failed: Duplicate key violation (e.g., license number).''\<rparr>
      | ValidationError errors \<Rightarrow> \<lparr>status = 400, reply = Json_errors ''Validation Error'' errors\<rparr>
      | CastError_ObjectId \<Rightarrow>
          \<lparr>status = 404, reply = Json_msg ''Pharmacy not found (Invalid ID format)''\<rparr>)"

definition updatePharmacy ::
  "platform \<Rightarrow> db \<Rightarrow> nat \<Rightarrow> jstring \<Rightarrow> body \<Rightarrow> response \<times> db" where
  "updatePharmacy P s now i b =
     (case findById s i of
        Inl err \<Rightarrow> (update_catch err, s)
      | Inr None \<Rightarrow> (\<lparr>status = 404, reply = Json_msg ''Pharmacy not found''\<rparr>, s)
      | Inr (Some p) \<Rightarrow>
          (case findByIdAndUpdate P s now i b of
             Inl err \<Rightarrow> (update_catch err, s)
           | Inr (None, s') \<Rightarrow> (\<lparr>status = 200, reply = Json_null\<rparr>, s')
           | Inr (Some updated, s') \<Rightarrow> (\<lparr>status = 200, reply = Json_pharmacy updated\<rparr>, s')))"

subsection \<open>DELETE /:id\<close>

definition delete_catch :: "error \<Rightarrow> response" where
  "delete_catch err =
     (case err of
        CastError_ObjectId \<Rightarrow>
          \<lparr>status = 404, reply = Json_msg ''Pharmacy not found (Invalid ID format)''\<rparr>
      | _ \<Rightarrow> \<lparr>status = 500, reply = Send ''Server Error''\<rparr>)"

definition deletePharmacy :: "db \<Rightarrow> nat \<Rightarrow> jstring \<Rightarrow> response \<times> db" where
  "deletePharmacy s now i =
     (case findById s i of
        Inl err \<Rightarrow> (delete_catch err, s)
      | Inr None \<Rightarrow> (\<lparr>status = 404, reply = Json_msg ''Pharmacy not found''\<rparr>, s)
      | Inr (Some p) \<Rightarrow>
          (case saveIsActive s now (p\<lparr>isActive := False\<rparr>) (isActive p \<noteq> False) of
             Inl err \<Rightarrow> (delete_catch err, s)
           | Inr s' \<Rightarrow> (\<lparr>status = 200, reply = Json_msg ''Pharmacy marked as inactive''\<rparr>, s')))"

subsection \<open>States of the store\<close>

text \<open>
  What the store and the mapper keep true of the collection: ids are unique and were
  generated, every document passed validation, and no two documents have the same
  \<open>licenseNumber\<close> (the unique index).
\<close>

definition storeInv :: "db \<Rightarrow> bool" where
  "storeInv s =
     (distinct (map oid (docs s))
      \<and> (\<forall>d \<in> set (docs s). oid d < nextId s \<and> validate d = [])
      \<and> distinct (map licenseNumber (docs s)))"

text \<open>The states that requests lead to, from an empty collection.\<close>

inductive reachable :: "platform \<Rightarrow> db \<Rightarrow> bool" for P :: platform where
  initial: "reachable P \<lparr>docs = [], nextId = n\<rparr>"
| create: "reachable P s \<Longrightarrow> reachable P (snd (createPharmacy P s now b))"
| update: "reachable P s \<Longrightarrow> reachable P (snd (updatePharmacy P s now i b))"
| delete: "reachable P s \<Longrightarrow> reachable P (snd (deletePharmacy s now i))"

subsection \<open>The specification's notions\<close>






text \<open>The 24-hour format: hours 00 to 23, a colon, minutes 00 to 59.\<close>

definition twoDigits :: "nat \<Rightarrow> jstring" where
  "twoDigits n = [js ''0123456789'' ! (n div 10), js ''0123456789'' ! (n mod 10)]"

definition specHHMM :: "jstring \<Rightarrow> bool" where
  "specHHMM t = (\<exists>h \<in> {0..<24}. \<exists>m \<in> {0..<60}. t = twoDigits h @ js '':'' @ twoDigits m)"

text \<open>A day of the week as the specification has it: an integer from 0 to 6.\<close>

definition specDayOfWeek :: "rat \<Rightarrow> bool" where
  "specDayOfWeek d = (d \<in> \<int> \<and> 0 \<le> d \<and> d \<le> 6)"

text \<open>
  An entry of \<open>openingHours\<close> with a day that is a number from 0 to 6 and two times in
  the 24-hour format.
\<close>

definition acceptedHours :: "openingHours \<Rightarrow> bool" where
  "acceptedHours h =
     ((case dayOfWeek h of None \<Rightarrow> False | Some d \<Rightarrow> 0 \<le> d \<and> d \<le> 6)
      \<and> (case openTime h of None \<Rightarrow> False | Some t \<Rightarrow> specHHMM t)
      \<and> (case closeTime h of None \<Rightarrow> False | Some t \<Rightarrow> specHHMM t))"

text \<open>
  The pattern text@text.text, each text a non-empty run of characters that are not
  white space, found anywhere in the value.
\<close>

definition specEmail :: "jstring \<Rightarrow> bool" where
  "specEmail e =
     (\<exists>p x m y q. e = p @ x @ [atSign] @ m @ [fullStop] @ y @ q
        \<and> x \<noteq> [] \<and> m \<noteq> [] \<and> y \<noteq> [] \<and> (\<forall>c \<in> set (x @ m @ y). \<not> isSpace c))"

text \<open>A value of \<open>email\<close> that is empty or holds the pattern, once lowercased and trimmed.\<close>

definition acceptedEmail :: "platform \<Rightarrow> jstring \<Rightarrow> bool" where
  "acceptedEmail P e = (castEmail P e = [] \<or> specEmail (castEmail P e))"

text \<open>
  A merge-update of \<open>d\<close> by the body \<open>b\<close>: a path of the body replaces the stored one,
  as the setters leave it, and a path that the body lacks keeps its value. The id and
  \<open>createdAt\<close> stay; \<open>updatedAt\<close> is not constrained.
\<close>

definition mergedFrom :: "platform \<Rightarrow> body \<Rightarrow> pharmacy \<Rightarrow> pharmacy \<Rightarrow> bool" where
  "mergedFrom P b d d' =
     (oid d' = oid d \<and> createdAt d' = createdAt d
      \<and> name d' = (case body_name b of None \<Rightarrow> name d | Some n \<Rightarrow> Some (trim n))
      \<and> address d'
          = (case body_address b of None \<Rightarrow> address d | Some a \<Rightarrow> Some (castAddress a))
      \<and> phoneNumber d'
          = (case body_phoneNumber b of None \<Rightarrow> phoneNumber d | Some p \<Rightarrow> Some (trim p))
      \<and> email d' = (case body_email b of None \<Rightarrow> email d | Some e \<Rightarrow> Some (castEmail P e))
      \<and> website d' = (case body_website b of None \<Rightarrow> website d | Some w \<Rightarrow> Some (trim w))
      \<and> licenseNumber d'
          = (case body_licenseNumber b of None \<Rightarrow> licenseNumber d | Some l \<Rightarrow> Some (trim l))
      \<and> servicesOffered d'
          = (case body_servicesOffered b of None \<Rightarrow> servicesOffered d | Some xs \<Rightarrow> map trim xs)
      \<and> openingHours d'
          = (case body_openingHours b of None \<Rightarrow> openingHours d | Some hs \<Rightarrow> hs)
      \<and> isActive d' = (case body_isActive b of None \<Rightarrow> isActive d | Some a \<Rightarrow> a))"

text \<open>The body gives \<open>d\<close> a \<open>licenseNumber\<close> that another stored document has.\<close>

definition licenseTaken :: "db \<Rightarrow> pharmacy \<Rightarrow> body \<Rightarrow> bool" where
  "licenseTaken s d b =
     (case body_licenseNumber b of
        None \<Rightarrow> False
      | Some l \<Rightarrow> \<exists>e \<in> set (docs s). oid e \<noteq> oid d \<and> licenseNumber e = Some (trim l))"

text \<open>The required paths that a create payload lacks.\<close>

definition missingRequired :: "body \<Rightarrow> path list" where
  "missingRequired b =
     (if body_name b = None then [Name] else [])
     @ (case body_address b of
          None \<Rightarrow> [Address]
        | Some a \<Rightarrow>
            (if street a = None then [Address_street] else [])
            @ (if city a = None then [Address_city] else [])
            @ (if state a = None then [Address_state] else [])
            @ (if zipCode a = None then [Address_zipCode] else []))
     @ (if body_phoneNumber b = None then [PhoneNumber] else [])
     @ (if body_licenseNumber b = None then [LicenseNumber] else [])"

subsection \<open>A sample platform\<close>

text \<open>
  A platform for the samples below, whose texts are ASCII. Its case mapping folds the
  letters A to Z. It reads a value made of ordinary characters, with or without a
  leading \<open>^\<close>, as the platform of the code does on ASCII text, and refuses every
  other value, as the platform of the code refuses \<open>(\<close>. No theorem but those about
  the samples depends on it.
\<close>

definition foldASCII :: "nat \<Rightarrow> nat" where
  "foldASCII c =
     (case map_of (zip (js ''ABCDEFGHIJKLMNOPQRSTUVWXYZ'') (js ''abcdefghijklmnopqrstuvwxyz'')) c of
        Some l \<Rightarrow> l
      | None \<Rightarrow> c)"

definition lowerASCII :: "jstring \<Rightarrow> jstring" where
  "lowerASCII s = map foldASCII s"

definition plainChar :: "nat \<Rightarrow> bool" where
  "plainChar c = (c \<notin> set (js (CHR 0x5C # ''^$.*+?()[]{}|'')))"

fun ciPrefix :: "jstring \<Rightarrow> jstring \<Rightarrow> bool" where
  "ciPrefix [] s = True"
| "ciPrefix (p # ps) [] = False"
| "ciPrefix (p # ps) (c # cs) = (foldASCII p = foldASCII c \<and> ciPrefix ps cs)"

fun ciSearch :: "jstring \<Rightarrow> jstring \<Rightarrow> bool" where
  "ciSearch p [] = ciPrefix p []"
| "ciSearch p (c # cs) = (ciPrefix p (c # cs) \<or> ciSearch p cs)"

definition sampleRegExp :: "jstring \<Rightarrow> (jstring \<Rightarrow> bool) option" where
  "sampleRegExp src =
     (case src of
        [] \<Rightarrow> Some (ciSearch [])
      | c # rest \<Rightarrow>
          if c \<in> set (js ''^'') \<and> list_all plainChar rest then Some (ciPrefix rest)
          else if list_all plainChar src then Some (ciSearch src)
          else None)"

definition samplePlatform :: platform where
  "samplePlatform = \<lparr>toLowerCase = lowerASCII, newRegExp_i = sampleRegExp\<rparr>"

subsection \<open>Sample requests\<close>

definition emptyBody :: body where
  "emptyBody =
     \<lparr>body_name = None, body_address = None, body_phoneNumber = None, body_email = None,
      body_website = None, body_licenseNumber = None, body_servicesOffered = None,
      body_openingHours = None, body_isActive = None\<rparr>"

definition bostonAddress :: address where
  "bostonAddress =
     \<lparr>street = Some (js ''1 Main St''), city = Some (js ''boston''), state = Some (js ''MA''),
      zipCode = Some (js ''02101''), country = None, latitude = None, longitude = None\<rparr>"

definition acmeBody :: body where
  "acmeBody =
     \<lparr>body_name = Some (js ''Acme''), body_address = Some bostonAddress,
      body_phoneNumber = Some (js ''555-0100''), body_email = Some (js ''a@b.co''),
      body_website = None, body_licenseNumber = Some (js ''LIC-1''),
      body_servicesOffered = Some [js ''Prescriptions''],
      body_openingHours =
        Some [\<lparr>dayOfWeek = Some 1, openTime = Some (js ''09:00''), closeTime = Some (js ''18:00'')\<rparr>],
      body_isActive = None\<rparr>"

definition zetaBody :: body where
  "zetaBody =
     acmeBody\<lparr>body_name := Some (js ''Zeta''), body_licenseNumber := Some (js ''LIC-2''),
       body_address := Some (bostonAddress\<lparr>city := Some (js ''Chicago'')\<rparr>)\<rparr>"

definition emptyDb :: db where
  "emptyDb = \<lparr>docs = [], nextId = 1\<rparr>"

text \<open>The store after Acme was created at time 7, and after Zeta was created at time 8.\<close>

definition acmeDb :: db where
  "acmeDb = snd (createPharmacy samplePlatform emptyDb 7 acmeBody)"

definition twoDb :: db where
  "twoDb = snd (createPharmacy samplePlatform acmeDb 8 zetaBody)"

text \<open>Opening hours with a day that is not an integer.\<close>

definition halfDayHours :: openingHours where
  "halfDayHours = \<lparr>dayOfWeek = Some (5 / 2), openTime = Some (js ''09:00''), closeTime = Some (js ''18:00'')\<rparr>"

text \<open>Opening hours with a time that is not in the 24-hour format.\<close>

definition lateHours :: openingHours where
  "lateHours = \<lparr>dayOfWeek = Some 1, openTime = Some (js ''25:00''), closeTime = Some (js ''18:00'')\<rparr>"

definition acmeId :: jstring where
  "acmeId = js ''000000000000000000000001''"

text \<open>The document that the creation of Acme stores.\<close>

definition acmeDoc :: pharmacy where
  "acmeDoc = (newPharmacy samplePlatform 1 acmeBody)\<lparr>createdAt := Some 7, updatedAt := Some 7\<rparr>"

text \<open>The store after Acme was deleted at time 9, and the document as it is then.\<close>

definition deletedDb :: db where
  "deletedDb = snd (deletePharmacy acmeDb 9 acmeId)"

definition deletedDoc :: pharmacy where
  "deletedDoc = acmeDoc\<lparr>isActive := False, updatedAt := Some 9\<rparr>"

section \<open>Properties\<close>

subsection \<open>Looking a document up by id\<close>

lemma find_oid_distinct:
  "distinct (map oid ds) \<Longrightarrow> d \<in> set ds \<Longrightarrow> find (\<lambda>e. oid e = oid d) ds = Some d"
  by (induction ds) (auto simp: rev_image_eqI)

lemma find_oid_Some:
  "find (\<lambda>e. oid e = k) ds = Some d \<Longrightarrow> d \<in> set ds \<and> oid d = k"
  by (induction ds) (auto split: if_splits)

text \<open>
  Claim C3. In a collection with unique ids, the get-by-id endpoint answers 200 exactly
  when a document has the id of the request and is active, and the response then
  carries that document; every other answer is 404, in particular the answer to an id
  that does not cast.
\<close>

theorem get_by_id:
  assumes "distinct (map oid (docs s))"
  shows "(status (getPharmacy s i) = 200 \<longleftrightarrow>
            (\<exists>d \<in> set (docs s). castObjectId i = Some (oid d) \<and> isActive d))
         \<and> (\<forall>d \<in> set (docs s). castObjectId i = Some (oid d) \<and> isActive d \<longrightarrow>
               getPharmacy s i = \<lparr>status = 200, reply = Json_pharmacy d\<rparr>)
         \<and> (status (getPharmacy s i) \<noteq> 200 \<longrightarrow> status (getPharmacy s i) = 404)
         \<and> (castObjectId i = None \<longrightarrow> status (getPharmacy s i) = 404)"
proof -
  have a: "\<And>d. d \<in> set (docs s) \<Longrightarrow> castObjectId i = Some (oid d) \<Longrightarrow> isActive d \<Longrightarrow>
      getPharmacy s i = \<lparr>status = 200, reply = Json_pharmacy d\<rparr>"
    using assms by (simp add: getPharmacy_def findById_def find_oid_distinct)
  have b: "status (getPharmacy s i) = 200 \<Longrightarrow>
      \<exists>d \<in> set (docs s). castObjectId i = Some (oid d) \<and> isActive d"
    by (auto simp: getPharmacy_def findById_def get_catch_def
        split: option.splits if_splits dest: find_oid_Some)
  have c: "status (getPharmacy s i) \<noteq> 200 \<Longrightarrow> status (getPharmacy s i) = 404"
    by (auto simp: getPharmacy_def findById_def get_catch_def split: option.splits if_splits)
  have d: "castObjectId i = None \<Longrightarrow> status (getPharmacy s i) = 404"
    by (simp add: getPharmacy_def findById_def get_catch_def)
  from a b c d show ?thesis by fastforce
qed

theorem get_by_id_witness:
  "distinct (map oid (docs acmeDb))
   \<and> status (getPharmacy acmeDb acmeId) = 200
   \<and> status (getPharmacy acmeDb (js ''000000000000000000000002'')) = 404
   \<and> status (getPharmacy acmeDb (js ''xyz'')) = 404"
proof -
  have h: "distinct (map oid (docs acmeDb))" by code_simp
  have e: "\<exists>d \<in> set (docs acmeDb). castObjectId acmeId = Some (oid d) \<and> isActive d"
    by code_simp
  have n: "\<not> (\<exists>d \<in> set (docs acmeDb).
      castObjectId (js ''000000000000000000000002'') = Some (oid d) \<and> isActive d)"
    by code_simp
  have m: "castObjectId (js ''xyz'') = None" by code_simp
  from get_by_id [OF h, of acmeId] e have 1: "status (getPharmacy acmeDb acmeId) = 200"
    by blast
  from get_by_id [OF h, of "(js ''000000000000000000000002'')"] n
  have 2: "status (getPharmacy acmeDb (js ''000000000000000000000002'')) = 404" by blast
  from get_by_id [OF h, of "(js ''xyz'')"] m
  have 3: "status (getPharmacy acmeDb (js ''xyz'')) = 404" by blast
  from h 1 2 3 show ?thesis by simp
qed

subsection \<open>Creating a document\<close>

lemma createPharmacy_cases:
  "createPharmacy P s now b =
     (let d = newPharmacy P (nextId s) b; s1 = s\<lparr>nextId := Suc (nextId s)\<rparr> in
      if validate d \<noteq> []
      then (\<lparr>status = 400, reply = Json_errors ''Validation Error'' (validate d)\<rparr>, s1)
      else if licenseNumber d \<in> set (map licenseNumber (docs s))
      then (\<lparr>status = 400,
             reply = Json_msg ''Pharmacy with this license number already exists.''\<rparr>, s1)
      else (\<lparr>status = 201,
             reply = Json_pharmacy (d\<lparr>createdAt := Some now, updatedAt := Some now\<rparr>)\<rparr>,
            s1\<lparr>docs := docs s @ [d\<lparr>createdAt := Some now, updatedAt := Some now\<rparr>]\<rparr>))"
  by (simp add: createPharmacy_def save_def create_catch_def Let_def)

lemma validate_newPharmacy:
  "validate (newPharmacy P i b) =
     requiredString Name (map_option trim (body_name b))
     @ validateAddress (map_option castAddress (body_address b))
     @ requiredString PhoneNumber (map_option trim (body_phoneNumber b))
     @ matchString Email matchEmail (map_option (castEmail P) (body_email b))
     @ requiredString LicenseNumber (map_option trim (body_licenseNumber b))
     @ validateOpeningHours (case body_openingHours b of None \<Rightarrow> [] | Some hs \<Rightarrow> hs)"
  by (simp add: validate_def newPharmacy_def)

lemma missingRequired_cases:
  assumes "p \<in> set (missingRequired b)"
  shows "(p = Name \<and> body_name b = None) \<or> (p = Address \<and> body_address b = None)
         \<or> (\<exists>a. body_address b = Some a \<and> p = Address_street \<and> street a = None)
         \<or> (\<exists>a. body_address b = Some a \<and> p = Address_city \<and> city a = None)
         \<or> (\<exists>a. body_address b = Some a \<and> p = Address_state \<and> state a = None)
         \<or> (\<exists>a. body_address b = Some a \<and> p = Address_zipCode \<and> zipCode a = None)
         \<or> (p = PhoneNumber \<and> body_phoneNumber b = None)
         \<or> (p = LicenseNumber \<and> body_licenseNumber b = None)"
  using assms by (cases "body_address b") (auto simp: missingRequired_def split: if_splits)

lemma missingRequired_errors:
  assumes "p \<in> set (missingRequired b)"
  shows "(p, Required) \<in> set (validate (newPharmacy P i b))"
  using missingRequired_cases [OF assms]
  by (elim disjE exE conjE)
    (simp_all add: validate_newPharmacy requiredString_def validateAddress_def castAddress_def)

text \<open>
  Claim C2. A create request that lacks \<open>name\<close>, \<open>address\<close>, one of \<open>street\<close>,
  \<open>city\<close>, \<open>state\<close> and \<open>zipCode\<close> of the address, \<open>phoneNumber\<close> or
  \<open>licenseNumber\<close> is answered 400 with the validation message and the errors by
  path, among them a \<open>required\<close> error for each path that is missing; no document is
  inserted.
\<close>

theorem create_missing_required:
  assumes "missingRequired b \<noteq> []"
  shows "\<exists>errors. fst (createPharmacy P s now b)
             = \<lparr>status = 400, reply = Json_errors ''Validation Error'' errors\<rparr>
           \<and> (\<forall>p \<in> set (missingRequired b). (p, Required) \<in> set errors)
           \<and> docs (snd (createPharmacy P s now b)) = docs s"
proof -
  obtain p where "p \<in> set (missingRequired b)"
    using assms by (cases "missingRequired b") auto
  then have "validate (newPharmacy P (nextId s) b) \<noteq> []"
    using missingRequired_errors [of p b P "nextId s"] by auto
  then show ?thesis
    by (simp add: createPharmacy_cases Let_def missingRequired_errors)
qed

theorem create_missing_required_witness:
  "missingRequired (acmeBody\<lparr>body_name := None\<rparr>) \<noteq> []
   \<and> (\<exists>errors. fst (createPharmacy samplePlatform emptyDb 7 (acmeBody\<lparr>body_name := None\<rparr>))
          = \<lparr>status = 400, reply = Json_errors ''Validation Error'' errors\<rparr>
        \<and> (\<forall>p \<in> set (missingRequired (acmeBody\<lparr>body_name := None\<rparr>)).
              (p, Required) \<in> set errors)
        \<and> docs (snd (createPharmacy samplePlatform emptyDb 7 (acmeBody\<lparr>body_name := None\<rparr>)))
            = docs emptyDb)"
proof -
  have h: "missingRequired (acmeBody\<lparr>body_name := None\<rparr>) \<noteq> []" by code_simp
  from h create_missing_required [OF h, of samplePlatform emptyDb 7] show ?thesis by blast
qed

text \<open>
  Claim C9. The create handler reads eight paths of the body and not \<open>isActive\<close>: the
  response and the store are the same whatever \<open>isActive\<close> the body carries. A document
  answered with 201 is the one inserted, is active, and holds the eight paths as the
  setters of the schema leave them.
\<close>

theorem create_ignores_isActive:
  "createPharmacy P s now (b\<lparr>body_isActive := x\<rparr>) = createPharmacy P s now b
   \<and> (status (fst (createPharmacy P s now b)) = 201 \<longrightarrow>
        (\<exists>d. reply (fst (createPharmacy P s now b)) = Json_pharmacy d
           \<and> isActive d
           \<and> docs (snd (createPharmacy P s now b)) = docs s @ [d]
           \<and> name d = map_option trim (body_name b)
           \<and> address d = map_option castAddress (body_address b)
           \<and> phoneNumber d = map_option trim (body_phoneNumber b)
           \<and> licenseNumber d = map_option trim (body_licenseNumber b)
           \<and> email d = map_option (castEmail P) (body_email b)
           \<and> website d = map_option trim (body_website b)
           \<and> servicesOffered d = map trim (case body_servicesOffered b of None \<Rightarrow> [] | Some xs \<Rightarrow> xs)
           \<and> openingHours d = (case body_openingHours b of None \<Rightarrow> [] | Some hs \<Rightarrow> hs)))"
proof -
  have "newPharmacy P (nextId s) (b\<lparr>body_isActive := x\<rparr>) = newPharmacy P (nextId s) b"
    by (simp add: newPharmacy_def)
  then have 1: "createPharmacy P s now (b\<lparr>body_isActive := x\<rparr>) = createPharmacy P s now b"
    by (simp add: createPharmacy_def)
  have 2: "status (fst (createPharmacy P s now b)) = 201 \<longrightarrow>
        (\<exists>d. reply (fst (createPharmacy P s now b)) = Json_pharmacy d
           \<and> isActive d
           \<and> docs (snd (createPharmacy P s now b)) = docs s @ [d]
           \<and> name d = map_option trim (body_name b)
           \<and> address d = map_option castAddress (body_address b)
           \<and> phoneNumber d = map_option trim (body_phoneNumber b)
           \<and> licenseNumber d = map_option trim (body_licenseNumber b)
           \<and> email d = map_option (castEmail P) (body_email b)
           \<and> website d = map_option trim (body_website b)
           \<and> servicesOffered d = map trim (case body_servicesOffered b of None \<Rightarrow> [] | Some xs \<Rightarrow> xs)
           \<and> openingHours d = (case body_openingHours b of None \<Rightarrow> [] | Some hs \<Rightarrow> hs))"
    by (simp add: createPharmacy_cases Let_def newPharmacy_def split: option.splits)
  from 1 2 show ?thesis by blast
qed

theorem create_ignores_isActive_witness:
  "status (fst (createPharmacy samplePlatform emptyDb 7 (acmeBody\<lparr>body_isActive := Some False\<rparr>))) = 201
   \<and> (\<exists>d. reply (fst (createPharmacy samplePlatform emptyDb 7 (acmeBody\<lparr>body_isActive := Some False\<rparr>)))
          = Json_pharmacy d \<and> isActive d)"
proof -
  have h: "status (fst (createPharmacy samplePlatform emptyDb 7 (acmeBody\<lparr>body_isActive := Some False\<rparr>))) = 201"
    by code_simp
  from h create_ignores_isActive
    [where P = samplePlatform and s = emptyDb and now = 7 and b = "acmeBody\<lparr>body_isActive := Some False\<rparr>"]
  show ?thesis by blast
qed

text \<open>
  Claim C1, as amended. A create request whose \<open>licenseNumber\<close>, trimmed as the setter
  of the schema does, is the \<open>licenseNumber\<close> of a stored document is answered 400 and
  the collection is left as it was. The answer is the duplicate-license message when
  the document passes validation; when it does not, validation comes first and the
  answer is the validation message with its errors.
\<close>

theorem create_duplicate_license:
  assumes "body_licenseNumber b = Some l"
    and "Some (trim l) \<in> set (map licenseNumber (docs s))"
  shows "status (fst (createPharmacy P s now b)) = 400
         \<and> docs (snd (createPharmacy P s now b)) = docs s
         \<and> (validate (newPharmacy P (nextId s) b) = [] \<longrightarrow>
              reply (fst (createPharmacy P s now b))
                = Json_msg ''Pharmacy with this license number already exists.'')
         \<and> (validate (newPharmacy P (nextId s) b) \<noteq> [] \<longrightarrow>
              reply (fst (createPharmacy P s now b))
                = Json_errors ''Validation Error'' (validate (newPharmacy P (nextId s) b)))"
proof -
  have "licenseNumber (newPharmacy P (nextId s) b) = Some (trim l)"
    using assms(1) by (simp add: newPharmacy_def)
  with assms(2) show ?thesis
    by (simp add: createPharmacy_cases Let_def)
qed

theorem create_duplicate_license_witness:
  "body_licenseNumber acmeBody = Some (js ''LIC-1'')
   \<and> Some (trim (js ''LIC-1'')) \<in> set (map licenseNumber (docs acmeDb))
   \<and> validate (newPharmacy samplePlatform (nextId acmeDb) acmeBody) = []
   \<and> status (fst (createPharmacy samplePlatform acmeDb 8 acmeBody)) = 400
   \<and> reply (fst (createPharmacy samplePlatform acmeDb 8 acmeBody))
       = Json_msg ''Pharmacy with this license number already exists.''
   \<and> docs (snd (createPharmacy samplePlatform acmeDb 8 acmeBody)) = docs acmeDb"
proof -
  have h1: "body_licenseNumber acmeBody = Some (js ''LIC-1'')" by code_simp
  have h2: "Some (trim (js ''LIC-1'')) \<in> set (map licenseNumber (docs acmeDb))" by code_simp
  have h3: "validate (newPharmacy samplePlatform (nextId acmeDb) acmeBody) = []" by code_simp
  from h1 h2 h3 create_duplicate_license [OF h1 h2, of samplePlatform 8] show ?thesis by simp
qed

text \<open>
  The claim as it is written fails: Acme is stored with license LIC-1, and a request
  with the same license and no name is answered with the validation message, not with
  the duplicate-license message.
\<close>

theorem create_duplicate_license_counterexample:
  "body_licenseNumber (acmeBody\<lparr>body_name := None\<rparr>) \<in> set (map licenseNumber (docs acmeDb))
   \<and> fst (createPharmacy samplePlatform acmeDb 8 (acmeBody\<lparr>body_name := None\<rparr>))
       = \<lparr>status = 400, reply = Json_errors ''Validation Error'' [(Name, Required)]\<rparr>
   \<and> reply (fst (createPharmacy samplePlatform acmeDb 8 (acmeBody\<lparr>body_name := None\<rparr>)))
       \<noteq> Json_msg ''Pharmacy with this license number already exists.''"
  by code_simp

subsection \<open>The patterns, as the specification reads them\<close>

lemma digit_sets:
  "isDigit c = (48 \<le> c \<and> c \<le> 57)"
  "(c \<in> set (js ''012345'')) = (48 \<le> c \<and> c \<le> 53)"
  "(c \<in> set (js ''0123'')) = (48 \<le> c \<and> c \<le> 51)"
  "(c \<in> set (js ''01'')) = (48 \<le> c \<and> c \<le> 49)"
  "(c \<in> set (js ''2'')) = (c = 50)"
  "(c \<in> set (js '':'')) = (c = 58)"
proof -
  show "isDigit c = (48 \<le> c \<and> c \<le> 57)"
    unfolding isDigit_def js_def by simp arith
  show "(c \<in> set (js ''012345'')) = (48 \<le> c \<and> c \<le> 53)"
    unfolding js_def by simp arith
  show "(c \<in> set (js ''0123'')) = (48 \<le> c \<and> c \<le> 51)"
    unfolding js_def by simp arith
  show "(c \<in> set (js ''01'')) = (48 \<le> c \<and> c \<le> 49)"
    unfolding js_def by simp arith
  show "(c \<in> set (js ''2'')) = (c = 50)"
    unfolding js_def by simp
  show "(c \<in> set (js '':'')) = (c = 58)"
    unfolding js_def by simp
qed

lemma digit_nth: "k < 10 \<Longrightarrow> js ''0123456789'' ! k = 48 + k"
proof -
  assume "k < 10"
  then have "k = 0 \<or> k = 1 \<or> k = 2 \<or> k = 3 \<or> k = 4 \<or> k = 5 \<or> k = 6 \<or> k = 7 \<or> k = 8 \<or> k = 9"
    by arith
  then show ?thesis
    by (auto simp: js_def)
qed

lemma twoDigits_decimal: "a < 10 \<Longrightarrow> b < 10 \<Longrightarrow> twoDigits (10 * a + b) = [48 + a, 48 + b]"
  by (simp add: twoDigits_def digit_nth)

lemma twoDigits_codes: "h < 100 \<Longrightarrow> twoDigits h = [48 + h div 10, 48 + h mod 10]"
proof -
  assume "h < 100"
  then have "h div 10 < 10" "h mod 10 < 10" by arith+
  then show ?thesis
    by (simp add: twoDigits_def digit_nth)
qed

lemma hours_chars:
  "((h1 \<in> set (js ''01'') \<and> isDigit h2) \<or> (h1 \<in> set (js ''2'') \<and> h2 \<in> set (js ''0123'')))
   = (\<exists>h \<in> {0..<24}. [h1, h2] = twoDigits h)"
proof
  assume "(h1 \<in> set (js ''01'') \<and> isDigit h2) \<or> (h1 \<in> set (js ''2'') \<and> h2 \<in> set (js ''0123''))"
  then have l: "(48 \<le> h1 \<and> h1 \<le> 49 \<and> 48 \<le> h2 \<and> h2 \<le> 57) \<or> (h1 = 50 \<and> 48 \<le> h2 \<and> h2 \<le> 51)"
    by (simp add: digit_sets)
  let ?h = "10 * (h1 - 48) + (h2 - 48)"
  from l have b: "?h < 24" by arith
  from l have r: "h1 - 48 < 10" "h2 - 48 < 10" and c: "48 + (h1 - 48) = h1" "48 + (h2 - 48) = h2"
    by arith+
  have "twoDigits ?h = [48 + (h1 - 48), 48 + (h2 - 48)]"
    using r by (rule twoDigits_decimal)
  then have "[h1, h2] = twoDigits ?h"
    by (simp only: c)
  with b show "\<exists>h \<in> {0..<24}. [h1, h2] = twoDigits h"
    by (intro bexI [of _ ?h]) simp_all
next
  assume "\<exists>h \<in> {0..<24}. [h1, h2] = twoDigits h"
  then obtain h where h: "h < 24" and e: "[h1, h2] = twoDigits h" by auto
  from h e have "h1 = 48 + h div 10" "h2 = 48 + h mod 10"
    by (simp_all add: twoDigits_codes)
  with h have "(48 \<le> h1 \<and> h1 \<le> 49 \<and> 48 \<le> h2 \<and> h2 \<le> 57) \<or> (h1 = 50 \<and> 48 \<le> h2 \<and> h2 \<le> 51)"
    by arith
  then show "(h1 \<in> set (js ''01'') \<and> isDigit h2) \<or> (h1 \<in> set (js ''2'') \<and> h2 \<in> set (js ''0123''))"
    by (simp add: digit_sets)
qed

lemma minutes_chars:
  "(m1 \<in> set (js ''012345'') \<and> isDigit m2) = (\<exists>m \<in> {0..<60}. [m1, m2] = twoDigits m)"
proof
  assume "m1 \<in> set (js ''012345'') \<and> isDigit m2"
  then have l: "48 \<le> m1 \<and> m1 \<le> 53 \<and> 48 \<le> m2 \<and> m2 \<le> 57"
    by (simp add: digit_sets)
  let ?m = "10 * (m1 - 48) + (m2 - 48)"
  from l have b: "?m < 60" by arith
  from l have r: "m1 - 48 < 10" "m2 - 48 < 10" and c: "48 + (m1 - 48) = m1" "48 + (m2 - 48) = m2"
    by arith+
  have "twoDigits ?m = [48 + (m1 - 48), 48 + (m2 - 48)]"
    using r by (rule twoDigits_decimal)
  then have "[m1, m2] = twoDigits ?m"
    by (simp only: c)
  with b show "\<exists>m \<in> {0..<60}. [m1, m2] = twoDigits m"
    by (intro bexI [of _ ?m]) simp_all
next
  assume "\<exists>m \<in> {0..<60}. [m1, m2] = twoDigits m"
  then obtain m where m: "m < 60" and e: "[m1, m2] = twoDigits m" by auto
  from m e have "m1 = 48 + m div 10" "m2 = 48 + m mod 10"
    by (simp_all add: twoDigits_codes)
  with m have "48 \<le> m1 \<and> m1 \<le> 53 \<and> 48 \<le> m2 \<and> m2 \<le> 57"
    by arith
  then show "m1 \<in> set (js ''012345'') \<and> isDigit m2"
    by (simp add: digit_sets)
qed

lemma matchHHMM_chars:
  "matchHHMM t = (\<exists>h1 h2 c m1 m2. t = [h1, h2, c, m1, m2]
      \<and> ((h1 \<in> set (js ''01'') \<and> isDigit h2) \<or> (h1 \<in> set (js ''2'') \<and> h2 \<in> set (js ''0123'')))
      \<and> c \<in> set (js '':'') \<and> (m1 \<in> set (js ''012345'') \<and> isDigit m2))"
  unfolding matchHHMM_def by (auto split: list.splits)

lemma specHHMM_chars:
  "specHHMM t = (\<exists>h1 h2 c m1 m2. t = [h1, h2, c, m1, m2]
      \<and> (\<exists>h \<in> {0..<24}. [h1, h2] = twoDigits h) \<and> c \<in> set (js '':'')
      \<and> (\<exists>m \<in> {0..<60}. [m1, m2] = twoDigits m))"
  unfolding specHHMM_def twoDigits_def by (auto 0 3 simp: js_def)

lemma matchHHMM_spec: "matchHHMM t = specHHMM t"
  by (simp only: matchHHMM_chars specHHMM_chars hours_chars minutes_chars)

lemma isSpace_fullStop: "\<not> isSpace fullStop"
  by (simp add: isSpace_def fullStop_def)

lemma mem_tl_butlast:
  assumes "x \<in> set (tl (butlast r))"
  shows "\<exists>m y. r = m @ x # y \<and> m \<noteq> [] \<and> y \<noteq> []"
proof -
  from assms obtain u v where uv: "tl (butlast r) = u @ x # v"
    by (auto dest: split_list)
  then obtain h where bl: "butlast r = h # u @ x # v"
    by (cases "butlast r") auto
  then have "r \<noteq> []" by auto
  then have "r = butlast r @ [last r]" by simp
  also have "\<dots> = (h # u) @ x # (v @ [last r])"
    unfolding bl by simp
  finally show ?thesis by blast
qed

lemma matchDotTail_iff:
  "matchDotTail s =
     (\<exists>m y q. s = m @ [fullStop] @ y @ q \<and> m \<noteq> [] \<and> y \<noteq> [] \<and> (\<forall>c \<in> set (m @ y). \<not> isSpace c))"
proof
  let ?P = "\<lambda>c. \<not> isSpace c"
  assume "matchDotTail s"
  then have "fullStop \<in> set (tl (butlast (takeWhile ?P s)))"
    by (simp add: matchDotTail_def)
  from mem_tl_butlast [OF this]
  obtain m y where r: "takeWhile ?P s = m @ fullStop # y" and my: "m \<noteq> []" "y \<noteq> []"
    by (elim exE conjE)
  have "\<forall>c \<in> set (takeWhile ?P s). \<not> isSpace c"
    by (auto dest: set_takeWhileD)
  then have ns: "\<forall>c \<in> set (m @ y). \<not> isSpace c"
    unfolding r by auto
  have "s = takeWhile ?P s @ dropWhile ?P s" by simp
  then have "s = m @ [fullStop] @ y @ dropWhile ?P s"
    unfolding r by simp
  with my ns show "\<exists>m y q. s = m @ [fullStop] @ y @ q \<and> m \<noteq> [] \<and> y \<noteq> []
      \<and> (\<forall>c \<in> set (m @ y). \<not> isSpace c)"
    by blast
next
  let ?P = "\<lambda>c. \<not> isSpace c"
  assume "\<exists>m y q. s = m @ [fullStop] @ y @ q \<and> m \<noteq> [] \<and> y \<noteq> [] \<and> (\<forall>c \<in> set (m @ y). \<not> isSpace c)"
  then obtain m y q where s: "s = m @ [fullStop] @ y @ q" and m: "m \<noteq> []" and y: "y \<noteq> []"
    and ns: "\<forall>c \<in> set (m @ y). \<not> isSpace c"
    by blast
  from ns have "\<And>c. c \<in> set (m @ [fullStop] @ y) \<Longrightarrow> ?P c"
    by (auto simp: isSpace_fullStop)
  then have "takeWhile ?P ((m @ [fullStop] @ y) @ q) = (m @ [fullStop] @ y) @ takeWhile ?P q"
    by (rule takeWhile_append2)
  with s have t: "takeWhile ?P s = m @ fullStop # (y @ takeWhile ?P q)"
    by simp
  from y have "butlast (m @ fullStop # (y @ takeWhile ?P q))
      = m @ fullStop # butlast (y @ takeWhile ?P q)"
    by (simp add: butlast_append)
  with m have "tl (butlast (takeWhile ?P s)) = tl m @ fullStop # butlast (y @ takeWhile ?P q)"
    by (simp add: t)
  then show "matchDotTail s"
    by (simp add: matchDotTail_def)
qed

lemma matchEmail_iff:
  "matchEmail s = (\<exists>p a t. s = p @ a # atSign # t \<and> \<not> isSpace a \<and> matchDotTail t)"
proof (induction s rule: matchEmail.induct)
  case (1 a b s)
  show ?case
  proof
    assume "matchEmail (a # b # s)"
    then consider "\<not> isSpace a \<and> b = atSign \<and> matchDotTail s" | "matchEmail (b # s)"
      by auto
    then show "\<exists>p a' t. a # b # s = p @ a' # atSign # t \<and> \<not> isSpace a' \<and> matchDotTail t"
    proof cases
      case 1
      then have "a # b # s = [] @ a # atSign # s \<and> \<not> isSpace a \<and> matchDotTail s" by simp
      then show ?thesis by blast
    next
      case 2
      with "1.IH" obtain p a' t where "b # s = p @ a' # atSign # t" "\<not> isSpace a'"
        "matchDotTail t" by blast
      then have "a # b # s = (a # p) @ a' # atSign # t \<and> \<not> isSpace a' \<and> matchDotTail t"
        by simp
      then show ?thesis by blast
    qed
  next
    assume "\<exists>p a' t. a # b # s = p @ a' # atSign # t \<and> \<not> isSpace a' \<and> matchDotTail t"
    then obtain p a' t where e: "a # b # s = p @ a' # atSign # t" and c: "\<not> isSpace a'"
      "matchDotTail t" by blast
    show "matchEmail (a # b # s)"
    proof (cases p)
      case Nil
      with e c show ?thesis by simp
    next
      case (Cons x p')
      with e have "b # s = p' @ a' # atSign # t" by simp
      with c "1.IH" have "matchEmail (b # s)" by blast
      then show ?thesis by simp
    qed
  qed
qed (auto simp: Cons_eq_append_conv)

lemma matchEmail_spec: "matchEmail e = specEmail e"
proof
  assume "matchEmail e"
  then obtain p a t where e: "e = p @ a # atSign # t" and a: "\<not> isSpace a"
    and t: "matchDotTail t"
    unfolding matchEmail_iff by blast
  from t obtain m y q where "t = m @ [fullStop] @ y @ q" "m \<noteq> []" "y \<noteq> []"
    "\<forall>c \<in> set (m @ y). \<not> isSpace c"
    unfolding matchDotTail_iff by blast
  with e a have "e = p @ [a] @ [atSign] @ m @ [fullStop] @ y @ q \<and> [a] \<noteq> [] \<and> m \<noteq> [] \<and> y \<noteq> []
      \<and> (\<forall>c \<in> set ([a] @ m @ y). \<not> isSpace c)"
    by simp
  then show "specEmail e"
    unfolding specEmail_def by blast
next
  assume "specEmail e"
  then obtain p x m y q where e: "e = p @ x @ [atSign] @ m @ [fullStop] @ y @ q" and x: "x \<noteq> []"
    and my: "m \<noteq> []" "y \<noteq> []" and ns: "\<forall>c \<in> set (x @ m @ y). \<not> isSpace c"
    unfolding specEmail_def by blast
  from x obtain x' a where xa: "x = x' @ [a]"
    by (cases x rule: rev_cases) auto
  from my ns have "matchDotTail (m @ [fullStop] @ y @ q)"
    unfolding matchDotTail_iff by auto
  moreover from xa ns have "\<not> isSpace a" by simp
  moreover from e xa have "e = (p @ x') @ a # atSign # (m @ [fullStop] @ y @ q)" by simp
  ultimately show "matchEmail e"
    unfolding matchEmail_iff by blast
qed

subsection \<open>Listing\<close>













subsection \<open>Opening hours, entry by entry\<close>

lemma validateHours_accepted: "(validateHours i h = []) = acceptedHours h"
  by (auto simp: validateHours_def validateDayOfWeek_def requiredString_def matchString_def
      acceptedHours_def matchHHMM_spec specHHMM_chars split: option.splits)

lemma validateOpeningHours_accepted:
  "(validateOpeningHours hs = []) = (\<forall>h \<in> set hs. acceptedHours h)"
proof -
  have "(validateOpeningHours hs = [])
      = (\<forall>x \<in> set (enumerate 0 hs). validateHours (fst x) (snd x) = [])"
    by (auto simp: validateOpeningHours_def)
  also have "\<dots> = (\<forall>x \<in> set (enumerate 0 hs). acceptedHours (snd x))"
    by (simp add: validateHours_accepted)
  also have "\<dots> = (\<forall>h \<in> snd ` set (enumerate 0 hs). acceptedHours h)"
    by blast
  also have "snd ` set (enumerate 0 hs) = set hs"
    by (metis list.set_map map_snd_enumerate)
  finally show ?thesis .
qed

subsection \<open>Updates, deletes and the invariant of the store\<close>

lemma storeInv_find:
  assumes "storeInv s" and "d \<in> set (docs s)"
  shows "find (\<lambda>e. oid e = oid d) (docs s) = Some d"
  using assms by (simp add: storeInv_def find_oid_distinct)

lemma findById_stored:
  assumes "storeInv s" and "d \<in> set (docs s)" and "castObjectId i = Some (oid d)"
  shows "findById s i = Inr (Some d)"
  using assms by (simp add: findById_def storeInv_find)

lemma findByIdAndUpdate_stored:
  assumes "storeInv s" and "d \<in> set (docs s)" and "castObjectId i = Some (oid d)"
  shows "findByIdAndUpdate P s now i b =
     (if updateValidators (castUpdate P b) \<noteq> []
      then Inl (ValidationError (updateValidators (castUpdate P b)))
      else if \<exists>e \<in> set (docs s). oid e \<noteq> oid d
                \<and> licenseNumber e = licenseNumber (applySet (castUpdate P b) now d)
      then Inl DuplicateKey
      else Inr (Some (applySet (castUpdate P b) now d),
                s\<lparr>docs := replaceDoc (oid d) (applySet (castUpdate P b) now d) (docs s)\<rparr>))"
  using assms by (simp add: findByIdAndUpdate_def storeInv_find Let_def)

lemma updatePharmacy_stored:
  assumes "storeInv s" and "d \<in> set (docs s)" and "castObjectId i = Some (oid d)"
  shows "updatePharmacy P s now i b =
     (if updateValidators (castUpdate P b) \<noteq> []
      then (\<lparr>status = 400,
             reply = Json_errors ''Validation Error'' (updateValidators (castUpdate P b))\<rparr>, s)
      else if \<exists>e \<in> set (docs s). oid e \<noteq> oid d
                \<and> licenseNumber e = licenseNumber (applySet (castUpdate P b) now d)
      then (\<lparr>status = 400,
             reply = Json_msg ''Update failed: Duplicate key violation (e.g., license number).''\<rparr>,
            s)
      else (\<lparr>status = 200, reply = Json_pharmacy (applySet (castUpdate P b) now d)\<rparr>,
            s\<lparr>docs := replaceDoc (oid d) (applySet (castUpdate P b) now d) (docs s)\<rparr>))"
  by (auto simp: updatePharmacy_def findById_stored [OF assms]
      findByIdAndUpdate_stored [OF assms] update_catch_def)

lemma updatePharmacy_not_found:
  "castObjectId i = None \<Longrightarrow>
     updatePharmacy P s now i b
       = (\<lparr>status = 404, reply = Json_msg ''Pharmacy not found (Invalid ID format)''\<rparr>, s)"
  "castObjectId i = Some k \<Longrightarrow> k \<notin> oid ` set (docs s) \<Longrightarrow>
     updatePharmacy P s now i b = (\<lparr>status = 404, reply = Json_msg ''Pharmacy not found''\<rparr>, s)"
proof -
  show "castObjectId i = None \<Longrightarrow>
     updatePharmacy P s now i b
       = (\<lparr>status = 404, reply = Json_msg ''Pharmacy not found (Invalid ID format)''\<rparr>, s)"
    by (simp add: updatePharmacy_def findById_def update_catch_def)
  assume k: "castObjectId i = Some k" "k \<notin> oid ` set (docs s)"
  then have "find (\<lambda>d. oid d = k) (docs s) = None"
    by (auto simp: find_None_iff)
  with k show "updatePharmacy P s now i b
      = (\<lparr>status = 404, reply = Json_msg ''Pharmacy not found''\<rparr>, s)"
    by (simp add: updatePharmacy_def findById_def)
qed

lemma validate_fields:
  "(validate d = []) =
     (requiredString Name (name d) = [] \<and> validateAddress (address d) = []
      \<and> requiredString PhoneNumber (phoneNumber d) = []
      \<and> matchString Email matchEmail (email d) = []
      \<and> requiredString LicenseNumber (licenseNumber d) = []
      \<and> validateOpeningHours (openingHours d) = [])"
  by (simp add: validate_def)

lemma updateValidators_fields:
  "(updateValidators u = []) =
     ((\<forall>n. body_name u = Some n \<longrightarrow> requiredString Name (Some n) = [])
      \<and> (\<forall>a. body_address u = Some a \<longrightarrow> validateAddress (Some a) = [])
      \<and> (\<forall>p. body_phoneNumber u = Some p \<longrightarrow> requiredString PhoneNumber (Some p) = [])
      \<and> matchString Email matchEmail (body_email u) = []
      \<and> (\<forall>l. body_licenseNumber u = Some l \<longrightarrow> requiredString LicenseNumber (Some l) = [])
      \<and> (\<forall>hs. body_openingHours u = Some hs \<longrightarrow> validateOpeningHours hs = []))"
  by (simp add: updateValidators_def split: option.splits)

lemma validate_applySet:
  assumes "validate d = []" and "updateValidators u = []"
  shows "validate (applySet u now d) = []"
proof -
  note v = assms(1) [unfolded validate_fields] and w = assms(2) [unfolded updateValidators_fields]
  have 1: "requiredString Name (name (applySet u now d)) = []"
    using v w by (cases "body_name u") (simp_all add: applySet_def)
  have 2: "validateAddress (address (applySet u now d)) = []"
    using v w by (cases "body_address u") (simp_all add: applySet_def)
  have 3: "requiredString PhoneNumber (phoneNumber (applySet u now d)) = []"
    using v w by (cases "body_phoneNumber u") (simp_all add: applySet_def)
  have 4: "matchString Email matchEmail (email (applySet u now d)) = []"
    using v w by (cases "body_email u") (simp_all add: applySet_def)
  have 5: "requiredString LicenseNumber (licenseNumber (applySet u now d)) = []"
    using v w by (cases "body_licenseNumber u") (simp_all add: applySet_def)
  have 6: "validateOpeningHours (openingHours (applySet u now d)) = []"
    using v w by (cases "body_openingHours u") (simp_all add: applySet_def)
  from 1 2 3 4 5 6 show ?thesis
    unfolding validate_fields by blast
qed

lemma replaceDoc_oid: "oid d' = k \<Longrightarrow> map oid (replaceDoc k d' ds) = map oid ds"
  by (induction ds) (simp_all add: replaceDoc_def)

lemma replaceDoc_set:
  "set (replaceDoc k d' ds) \<subseteq> insert d' {e \<in> set ds. oid e \<noteq> k}"
  by (auto simp: replaceDoc_def)

lemma replaceDoc_mem:
  "d \<in> set ds \<Longrightarrow> oid d = k \<Longrightarrow> d' \<in> set (replaceDoc k d' ds)"
  by (auto simp: replaceDoc_def)

lemma replaceDoc_others:
  "e \<in> set ds \<Longrightarrow> oid e \<noteq> k \<Longrightarrow> e \<in> set (replaceDoc k d' ds)"
  by (auto simp: replaceDoc_def)

lemma replaceDoc_Cons:
  "replaceDoc k d' (e # ds) = (if oid e = k then d' else e) # replaceDoc k d' ds"
  by (simp add: replaceDoc_def)

lemma replaceDoc_licenses:
  assumes "distinct (map oid ds)" and "distinct (map licenseNumber ds)"
    and "\<forall>e \<in> set ds. oid e \<noteq> k \<longrightarrow> licenseNumber e \<noteq> licenseNumber d'"
  shows "distinct (map licenseNumber (replaceDoc k d' ds))"
  using assms
proof (induction ds)
  case Nil
  show ?case by (simp add: replaceDoc_def)
next
  case (Cons e ds)
  then have ih: "distinct (map licenseNumber (replaceDoc k d' ds))" by simp
  show ?case
  proof (cases "oid e = k")
    case True
    with Cons.prems have "\<forall>x \<in> set ds. oid x \<noteq> k" by (auto simp: image_iff)
    then have same: "replaceDoc k d' ds = ds" by (simp add: replaceDoc_def map_idI)
    from Cons.prems True \<open>\<forall>x \<in> set ds. oid x \<noteq> k\<close>
    have "licenseNumber d' \<notin> licenseNumber ` set ds" by auto
    with Cons.prems True same show ?thesis by (simp add: replaceDoc_Cons)
  next
    case False
    have "licenseNumber ` set (replaceDoc k d' ds) \<subseteq> insert (licenseNumber d') (licenseNumber ` set ds)"
      using replaceDoc_set [of k d' ds] by auto
    moreover from Cons.prems False have "licenseNumber e \<noteq> licenseNumber d'" by simp
    moreover from Cons.prems have "licenseNumber e \<notin> licenseNumber ` set ds" by simp
    ultimately have "licenseNumber e \<notin> licenseNumber ` set (replaceDoc k d' ds)" by blast
    with ih False show ?thesis by (simp add: replaceDoc_Cons)
  qed
qed

lemma same_oid:
  assumes "distinct (map oid ds)" and "d \<in> set ds" and "e \<in> set ds" and "oid e = oid d"
  shows "e = d"
  using assms by (metis find_oid_distinct option.inject)

lemma replaceDoc_same:
  assumes "distinct (map oid ds)" and "d \<in> set ds"
  shows "replaceDoc (oid d) d ds = ds"
  unfolding replaceDoc_def using assms by (intro map_idI) (auto dest: same_oid)

lemma map_replaceDoc:
  assumes "distinct (map oid ds)" and "d \<in> set ds"
  shows "map (\<lambda>e. if oid e = oid d then f e else e) ds = replaceDoc (oid d) (f d) ds"
  unfolding replaceDoc_def using assms by (intro map_cong) (auto dest: same_oid)

lemma validate_isActive: "validate (d\<lparr>isActive := a\<rparr>) = validate d"
  by (simp add: validate_def)

lemma validate_timestamps: "validate (d\<lparr>createdAt := c, updatedAt := u\<rparr>) = validate d"
  by (simp add: validate_def)

lemma deletePharmacy_stored:
  assumes "storeInv s" and "d \<in> set (docs s)" and "castObjectId i = Some (oid d)"
  shows "deletePharmacy s now i =
     (\<lparr>status = 200, reply = Json_msg ''Pharmacy marked as inactive''\<rparr>,
      s\<lparr>docs := replaceDoc (oid d)
             (d\<lparr>isActive := False,
                updatedAt := (if isActive d then Some now else updatedAt d)\<rparr>) (docs s)\<rparr>)"
proof -
  from assms have dist: "distinct (map oid (docs s))" and valid: "validate d = []"
    by (simp_all add: storeInv_def)
  show ?thesis
  proof (cases "isActive d")
    case True
    have "map (\<lambda>e. if oid e = oid d then e\<lparr>isActive := False, updatedAt := Some now\<rparr> else e)
            (docs s)
          = replaceDoc (oid d) (d\<lparr>isActive := False, updatedAt := Some now\<rparr>) (docs s)"
      using dist assms(2) by (rule map_replaceDoc)
    with True valid show ?thesis
      by (simp add: deletePharmacy_def findById_stored [OF assms] saveIsActive_def
          validate_isActive cong: if_cong)
  next
    case False
    then have r: "d\<lparr>isActive := False,
        updatedAt := (if isActive d then Some now else updatedAt d)\<rparr> = d"
      by (cases d) simp
    have "s\<lparr>docs := replaceDoc (oid d)
             (d\<lparr>isActive := False,
                updatedAt := (if isActive d then Some now else updatedAt d)\<rparr>) (docs s)\<rparr> = s"
      unfolding r replaceDoc_same [OF dist assms(2)] by simp
    moreover have "deletePharmacy s now i
        = (\<lparr>status = 200, reply = Json_msg ''Pharmacy marked as inactive''\<rparr>, s)"
      using False valid
      by (simp add: deletePharmacy_def findById_stored [OF assms] saveIsActive_def
          validate_isActive)
    ultimately show ?thesis by (simp only:)
  qed
qed

lemma deletePharmacy_not_found:
  "castObjectId i = None \<Longrightarrow>
     deletePharmacy s now i
       = (\<lparr>status = 404, reply = Json_msg ''Pharmacy not found (Invalid ID format)''\<rparr>, s)"
  "castObjectId i = Some k \<Longrightarrow> k \<notin> oid ` set (docs s) \<Longrightarrow>
     deletePharmacy s now i = (\<lparr>status = 404, reply = Json_msg ''Pharmacy not found''\<rparr>, s)"
proof -
  show "castObjectId i = None \<Longrightarrow>
     deletePharmacy s now i
       = (\<lparr>status = 404, reply = Json_msg ''Pharmacy not found (Invalid ID format)''\<rparr>, s)"
    by (simp add: deletePharmacy_def findById_def delete_catch_def)
  assume k: "castObjectId i = Some k" "k \<notin> oid ` set (docs s)"
  then have "find (\<lambda>d. oid d = k) (docs s) = None"
    by (auto simp: find_None_iff)
  with k show "deletePharmacy s now i
      = (\<lparr>status = 404, reply = Json_msg ''Pharmacy not found''\<rparr>, s)"
    by (simp add: deletePharmacy_def findById_def)
qed

lemma storeInv_replaceDoc:
  assumes "storeInv s" and "oid d' = k" and "k < nextId s" and "validate d' = []"
    and "\<forall>e \<in> set (docs s). oid e \<noteq> k \<longrightarrow> licenseNumber e \<noteq> licenseNumber d'"
  shows "storeInv (s\<lparr>docs := replaceDoc k d' (docs s)\<rparr>)"
proof -
  from assms(1) have dist: "distinct (map oid (docs s))"
    and lic: "distinct (map licenseNumber (docs s))"
    and each: "\<forall>d \<in> set (docs s). oid d < nextId s \<and> validate d = []"
    by (simp_all add: storeInv_def)
  have 1: "distinct (map oid (replaceDoc k d' (docs s)))"
    using dist assms(2) by (simp add: replaceDoc_oid)
  have 2: "\<forall>d \<in> set (replaceDoc k d' (docs s)). oid d < nextId s \<and> validate d = []"
    using each assms(2-4) replaceDoc_set [of k d' "docs s"] by auto
  have 3: "distinct (map licenseNumber (replaceDoc k d' (docs s)))"
    using dist lic assms(5) by (rule replaceDoc_licenses)
  from 1 2 3 show ?thesis by (simp add: storeInv_def)
qed

lemma storeInv_initial: "storeInv \<lparr>docs = [], nextId = n\<rparr>"
  by (simp add: storeInv_def)

lemma storeInv_createPharmacy:
  assumes "storeInv s"
  shows "storeInv (snd (createPharmacy P s now b))"
proof -
  let ?d = "newPharmacy P (nextId s) b"
  let ?d' = "?d\<lparr>createdAt := Some now, updatedAt := Some now\<rparr>"
  from assms have dist: "distinct (map oid (docs s))"
    and lic: "distinct (map licenseNumber (docs s))"
    and each: "\<forall>d \<in> set (docs s). oid d < nextId s \<and> validate d = []"
    by (simp_all add: storeInv_def)
  have bump: "storeInv (s\<lparr>nextId := Suc (nextId s)\<rparr>)"
    using dist lic each by (auto simp: storeInv_def)
  have o: "oid ?d' = nextId s" by (simp add: newPharmacy_def)
  have l: "licenseNumber ?d' = licenseNumber ?d" by simp
  have new: "validate ?d = [] \<Longrightarrow> licenseNumber ?d \<notin> set (map licenseNumber (docs s)) \<Longrightarrow>
      storeInv (s\<lparr>nextId := Suc (nextId s), docs := docs s @ [?d']\<rparr>)"
  proof -
    assume v: "validate ?d = []" and n: "licenseNumber ?d \<notin> set (map licenseNumber (docs s))"
    from each have "nextId s \<notin> oid ` set (docs s)" by auto
    with dist o have 1: "distinct (map oid (docs s @ [?d']))" by simp
    from each v o have 2: "\<forall>d \<in> set (docs s @ [?d']). oid d < Suc (nextId s) \<and> validate d = []"
      by (auto simp: validate_timestamps)
    from lic n l have 3: "distinct (map licenseNumber (docs s @ [?d']))" by simp
    from 1 2 3 show ?thesis by (simp add: storeInv_def)
  qed
  show ?thesis
    using bump new by (simp add: createPharmacy_cases Let_def)
qed

lemma storeInv_updatePharmacy:
  assumes "storeInv s"
  shows "storeInv (snd (updatePharmacy P s now i b))"
proof (cases "castObjectId i")
  case None
  with assms show ?thesis by (simp add: updatePharmacy_not_found(1))
next
  case (Some k)
  show ?thesis
  proof (cases "k \<in> oid ` set (docs s)")
    case False
    with Some assms show ?thesis by (simp add: updatePharmacy_not_found(2))
  next
    case True
    then obtain d where d: "d \<in> set (docs s)" and k: "k = oid d" by auto
    let ?d' = "applySet (castUpdate P b) now d"
    from assms d have v: "validate d = []" and n: "oid d < nextId s"
      by (simp_all add: storeInv_def)
    have o: "oid ?d' = oid d" by (simp add: applySet_def)
    have "updateValidators (castUpdate P b) = [] \<Longrightarrow>
        \<forall>e \<in> set (docs s). oid e \<noteq> oid d \<longrightarrow> licenseNumber e \<noteq> licenseNumber ?d' \<Longrightarrow>
        storeInv (s\<lparr>docs := replaceDoc (oid d) ?d' (docs s)\<rparr>)"
      using assms o n v by (intro storeInv_replaceDoc validate_applySet)
    with assms show ?thesis
      using Some k by (auto simp: updatePharmacy_stored [OF assms d])
  qed
qed

lemma storeInv_deletePharmacy:
  assumes "storeInv s"
  shows "storeInv (snd (deletePharmacy s now i))"
proof (cases "castObjectId i")
  case None
  with assms show ?thesis by (simp add: deletePharmacy_not_found(1))
next
  case (Some k)
  show ?thesis
  proof (cases "k \<in> oid ` set (docs s)")
    case False
    with Some assms show ?thesis by (simp add: deletePharmacy_not_found(2))
  next
    case True
    then obtain d where d: "d \<in> set (docs s)" and k: "k = oid d" by auto
    let ?d' = "d\<lparr>isActive := False, updatedAt := (if isActive d then Some now else updatedAt d)\<rparr>"
    from assms d have v: "validate d = []" and n: "oid d < nextId s"
      and dist: "distinct (map oid (docs s))" and lic: "distinct (map licenseNumber (docs s))"
      by (simp_all add: storeInv_def)
    have v': "validate ?d' = []" using v by (simp add: validate_def)
    have "\<forall>e \<in> set (docs s). oid e \<noteq> oid d \<longrightarrow> licenseNumber e \<noteq> licenseNumber d"
      using lic d by (metis distinct_map inj_on_eq_iff)
    then have "\<forall>e \<in> set (docs s). oid e \<noteq> oid d \<longrightarrow> licenseNumber e \<noteq> licenseNumber ?d'"
      by simp
    with assms n v' have "storeInv (s\<lparr>docs := replaceDoc (oid d) ?d' (docs s)\<rparr>)"
      by (intro storeInv_replaceDoc) simp_all
    then show ?thesis
      using Some k by (simp add: deletePharmacy_stored [OF assms d])
  qed
qed

text \<open>Every state that requests lead to satisfies the invariant.\<close>

lemma reachable_storeInv: "reachable P s \<Longrightarrow> storeInv s"
  by (induction rule: reachable.induct)
    (simp_all add: storeInv_initial storeInv_createPharmacy storeInv_updatePharmacy
      storeInv_deletePharmacy)

subsection \<open>Updating a document\<close>

lemma applySet_mergedFrom: "mergedFrom P b d (applySet (castUpdate P b) now d)"
  by (simp add: mergedFrom_def applySet_def castUpdate_def split: option.splits)

lemma licenseTaken_iff:
  assumes "storeInv s" and "d \<in> set (docs s)"
  shows "(\<exists>e \<in> set (docs s). oid e \<noteq> oid d
            \<and> licenseNumber e = licenseNumber (applySet (castUpdate P b) now d))
         = licenseTaken s d b"
proof (cases "body_licenseNumber b")
  case None
  from assms have "distinct (map licenseNumber (docs s))" by (simp add: storeInv_def)
  with assms(2) have "\<forall>e \<in> set (docs s). oid e \<noteq> oid d \<longrightarrow> licenseNumber e \<noteq> licenseNumber d"
    by (metis distinct_map inj_on_eq_iff)
  with None show ?thesis
    by (auto simp: licenseTaken_def applySet_def castUpdate_def)
next
  case (Some l)
  then show ?thesis
    by (simp add: licenseTaken_def applySet_def castUpdate_def)
qed

lemma updatePharmacy_outcomes:
  assumes "storeInv s" and "d \<in> set (docs s)" and "castObjectId i = Some (oid d)"
  shows "updatePharmacy P s now i b =
     (if updateValidators (castUpdate P b) \<noteq> []
      then (\<lparr>status = 400,
             reply = Json_errors ''Validation Error'' (updateValidators (castUpdate P b))\<rparr>, s)
      else if licenseTaken s d b
      then (\<lparr>status = 400,
             reply = Json_msg ''Update failed: Duplicate key violation (e.g., license number).''\<rparr>,
            s)
      else (\<lparr>status = 200, reply = Json_pharmacy (applySet (castUpdate P b) now d)\<rparr>,
            s\<lparr>docs := replaceDoc (oid d) (applySet (castUpdate P b) now d) (docs s)\<rparr>))"
  unfolding updatePharmacy_stored [OF assms] licenseTaken_iff [OF assms(1,2)] ..

lemma updatePharmacy_ok:
  assumes "storeInv s" and "d \<in> set (docs s)" and "castObjectId i = Some (oid d)"
    and "updateValidators (castUpdate P b) = []" and "\<not> licenseTaken s d b"
  shows "\<exists>d'. updatePharmacy P s now i b
            = (\<lparr>status = 200, reply = Json_pharmacy d'\<rparr>,
               s\<lparr>docs := replaceDoc (oid d) d' (docs s)\<rparr>)
          \<and> mergedFrom P b d d' \<and> updatedAt d' = Some now \<and> validate d' = []
          \<and> d' \<in> set (replaceDoc (oid d) d' (docs s))
          \<and> (\<forall>e \<in> set (docs s). oid e \<noteq> oid d \<longrightarrow> e \<in> set (replaceDoc (oid d) d' (docs s)))"
proof -
  let ?d' = "applySet (castUpdate P b) now d"
  have 1: "updatePharmacy P s now i b
      = (\<lparr>status = 200, reply = Json_pharmacy ?d'\<rparr>, s\<lparr>docs := replaceDoc (oid d) ?d' (docs s)\<rparr>)"
    using assms(4,5) by (simp add: updatePharmacy_outcomes [OF assms(1-3)])
  have 2: "mergedFrom P b d ?d'" by (rule applySet_mergedFrom)
  have 3: "updatedAt ?d' = Some now" by (simp add: applySet_def)
  from assms(1,2) have "validate d = []" by (simp add: storeInv_def)
  then have 4: "validate ?d' = []" using assms(4) by (rule validate_applySet)
  have 5: "?d' \<in> set (replaceDoc (oid d) ?d' (docs s))"
    using assms(2) by (simp add: replaceDoc_mem)
  have 6: "\<forall>e \<in> set (docs s). oid e \<noteq> oid d \<longrightarrow> e \<in> set (replaceDoc (oid d) ?d' (docs s))"
    by (simp add: replaceDoc_others)
  from 1 2 3 4 5 6 show ?thesis by blast
qed

text \<open>
  Claim C5, as amended. On a store that satisfies its invariant: an id that does not
  cast and an id that no document has are answered 404. For the id of a stored
  document, the validators of the paths of the body run first and a failure is answered
  400 with the errors; then a \<open>licenseNumber\<close> that another document has is answered
  400 with the duplicate-key message; in both cases the store is left as it was.
  Otherwise the answer is 200 with the document as updated, which replaces the stored
  one: the paths of the body are replaced, every other path keeps its value except
  \<open>updatedAt\<close>, which is set to the time of the update, and the document as updated
  passes validation. The other documents are left as they were.
\<close>

theorem update_merges:
  assumes "storeInv s"
  shows "(castObjectId i = None \<longrightarrow>
            updatePharmacy P s now i b
              = (\<lparr>status = 404, reply = Json_msg ''Pharmacy not found (Invalid ID format)''\<rparr>, s))
         \<and> (\<forall>k. castObjectId i = Some k \<and> k \<notin> oid ` set (docs s) \<longrightarrow>
               updatePharmacy P s now i b
                 = (\<lparr>status = 404, reply = Json_msg ''Pharmacy not found''\<rparr>, s))
         \<and> (\<forall>d \<in> set (docs s). castObjectId i = Some (oid d) \<longrightarrow>
               (updateValidators (castUpdate P b) \<noteq> [] \<longrightarrow>
                  updatePharmacy P s now i b
                    = (\<lparr>status = 400,
                        reply = Json_errors ''Validation Error''
                                  (updateValidators (castUpdate P b))\<rparr>, s))
               \<and> (updateValidators (castUpdate P b) = [] \<and> licenseTaken s d b \<longrightarrow>
                    updatePharmacy P s now i b
                      = (\<lparr>status = 400,
                          reply = Json_msg
                            ''Update failed: Duplicate key violation (e.g., license number).''\<rparr>,
                         s))
               \<and> (updateValidators (castUpdate P b) = [] \<and> \<not> licenseTaken s d b \<longrightarrow>
                    (\<exists>d'. updatePharmacy P s now i b
                            = (\<lparr>status = 200, reply = Json_pharmacy d'\<rparr>,
                               s\<lparr>docs := replaceDoc (oid d) d' (docs s)\<rparr>)
                          \<and> mergedFrom P b d d' \<and> updatedAt d' = Some now \<and> validate d' = []
                          \<and> d' \<in> set (replaceDoc (oid d) d' (docs s))
                          \<and> (\<forall>e \<in> set (docs s). oid e \<noteq> oid d \<longrightarrow>
                                e \<in> set (replaceDoc (oid d) d' (docs s))))))"
proof (intro conjI allI ballI impI)
  show "castObjectId i = None \<Longrightarrow>
      updatePharmacy P s now i b
        = (\<lparr>status = 404, reply = Json_msg ''Pharmacy not found (Invalid ID format)''\<rparr>, s)"
    by (rule updatePharmacy_not_found(1))
next
  fix k
  assume "castObjectId i = Some k \<and> k \<notin> oid ` set (docs s)"
  then show "updatePharmacy P s now i b
      = (\<lparr>status = 404, reply = Json_msg ''Pharmacy not found''\<rparr>, s)"
    by (simp add: updatePharmacy_not_found(2))
next
  fix d
  assume d: "d \<in> set (docs s)" "castObjectId i = Some (oid d)"
  note o = updatePharmacy_outcomes [OF assms d]
  show "updateValidators (castUpdate P b) \<noteq> [] \<Longrightarrow>
      updatePharmacy P s now i b
        = (\<lparr>status = 400,
            reply = Json_errors ''Validation Error'' (updateValidators (castUpdate P b))\<rparr>, s)"
    by (simp add: o)
  show "updateValidators (castUpdate P b) = [] \<and> licenseTaken s d b \<Longrightarrow>
      updatePharmacy P s now i b
        = (\<lparr>status = 400,
            reply = Json_msg ''Update failed: Duplicate key violation (e.g., license number).''\<rparr>,
           s)"
    by (simp add: o)
  show "updateValidators (castUpdate P b) = [] \<and> \<not> licenseTaken s d b \<Longrightarrow>
      \<exists>d'. updatePharmacy P s now i b
              = (\<lparr>status = 200, reply = Json_pharmacy d'\<rparr>,
                 s\<lparr>docs := replaceDoc (oid d) d' (docs s)\<rparr>)
            \<and> mergedFrom P b d d' \<and> updatedAt d' = Some now \<and> validate d' = []
            \<and> d' \<in> set (replaceDoc (oid d) d' (docs s))
            \<and> (\<forall>e \<in> set (docs s). oid e \<noteq> oid d \<longrightarrow>
                  e \<in> set (replaceDoc (oid d) d' (docs s)))"
    using updatePharmacy_ok [OF assms d] by blast
qed

theorem update_merges_witness:
  "storeInv twoDb
   \<and> castObjectId (js ''xyz'') = None
   \<and> fst (updatePharmacy samplePlatform twoDb 9 (js ''xyz'') emptyBody)
       = \<lparr>status = 404, reply = Json_msg ''Pharmacy not found (Invalid ID format)''\<rparr>
   \<and> castObjectId (js ''000000000000000000000009'') = Some 9 \<and> 9 \<notin> oid ` set (docs twoDb)
   \<and> fst (updatePharmacy samplePlatform twoDb 9 (js ''000000000000000000000009'') emptyBody)
       = \<lparr>status = 404, reply = Json_msg ''Pharmacy not found''\<rparr>
   \<and> acmeDoc \<in> set (docs twoDb) \<and> castObjectId acmeId = Some (oid acmeDoc)
   \<and> updateValidators (castUpdate samplePlatform (emptyBody\<lparr>body_name := Some (js '' '')\<rparr>)) \<noteq> []
   \<and> status (fst (updatePharmacy samplePlatform twoDb 9 acmeId (emptyBody\<lparr>body_name := Some (js '' '')\<rparr>))) = 400
   \<and> updateValidators (castUpdate samplePlatform (emptyBody\<lparr>body_licenseNumber := Some (js ''LIC-2'')\<rparr>)) = []
   \<and> licenseTaken twoDb acmeDoc (emptyBody\<lparr>body_licenseNumber := Some (js ''LIC-2'')\<rparr>)
   \<and> fst (updatePharmacy samplePlatform twoDb 9 acmeId (emptyBody\<lparr>body_licenseNumber := Some (js ''LIC-2'')\<rparr>))
       = \<lparr>status = 400,
          reply = Json_msg ''Update failed: Duplicate key violation (e.g., license number).''\<rparr>
   \<and> updateValidators (castUpdate samplePlatform (emptyBody\<lparr>body_website := Some (js ''acme.example'')\<rparr>)) = []
   \<and> \<not> licenseTaken twoDb acmeDoc (emptyBody\<lparr>body_website := Some (js ''acme.example'')\<rparr>)
   \<and> (\<exists>d'. updatePharmacy samplePlatform twoDb 9 acmeId (emptyBody\<lparr>body_website := Some (js ''acme.example'')\<rparr>)
              = (\<lparr>status = 200, reply = Json_pharmacy d'\<rparr>,
                 twoDb\<lparr>docs := replaceDoc (oid acmeDoc) d' (docs twoDb)\<rparr>)
            \<and> mergedFrom samplePlatform (emptyBody\<lparr>body_website := Some (js ''acme.example'')\<rparr>) acmeDoc d'
            \<and> website d' = Some (js ''acme.example'') \<and> name d' = name acmeDoc
            \<and> validate d' = [])"
proof -
  let ?b = "emptyBody\<lparr>body_website := Some (js ''acme.example'')\<rparr>"
  let ?blank = "emptyBody\<lparr>body_name := Some (js '' '')\<rparr>"
  let ?dup = "emptyBody\<lparr>body_licenseNumber := Some (js ''LIC-2'')\<rparr>"
  have h: "storeInv twoDb" by code_simp
  have n: "castObjectId (js ''xyz'') = None" by code_simp
  have k: "castObjectId (js ''000000000000000000000009'') = Some 9" by code_simp
  have k': "9 \<notin> oid ` set (docs twoDb)" by code_simp
  have m: "acmeDoc \<in> set (docs twoDb)" by code_simp
  have c: "castObjectId acmeId = Some (oid acmeDoc)" by code_simp
  have vb: "updateValidators (castUpdate samplePlatform ?blank) \<noteq> []" by code_simp
  have vd: "updateValidators (castUpdate samplePlatform ?dup) = []" by code_simp
  have td: "licenseTaken twoDb acmeDoc ?dup" by code_simp
  have v: "updateValidators (castUpdate samplePlatform ?b) = []" by code_simp
  have t: "\<not> licenseTaken twoDb acmeDoc ?b" by code_simp
  from update_merges [OF h, of "(js ''xyz'')" samplePlatform 9 emptyBody] n
  have 1: "fst (updatePharmacy samplePlatform twoDb 9 (js ''xyz'') emptyBody)
       = \<lparr>status = 404, reply = Json_msg ''Pharmacy not found (Invalid ID format)''\<rparr>"
    by simp
  from update_merges [OF h, of "(js ''000000000000000000000009'')" samplePlatform 9 emptyBody] k k'
  have 2: "fst (updatePharmacy samplePlatform twoDb 9 (js ''000000000000000000000009'') emptyBody)
       = \<lparr>status = 404, reply = Json_msg ''Pharmacy not found''\<rparr>"
    by simp
  from update_merges [OF h, of acmeId samplePlatform 9 ?blank] m c vb
  have 3: "status (fst (updatePharmacy samplePlatform twoDb 9 acmeId ?blank)) = 400"
    by fastforce
  from update_merges [OF h, of acmeId samplePlatform 9 ?dup] m c vd td
  have 4: "fst (updatePharmacy samplePlatform twoDb 9 acmeId ?dup)
       = \<lparr>status = 400,
          reply = Json_msg ''Update failed: Duplicate key violation (e.g., license number).''\<rparr>"
    by fastforce
  from update_merges [OF h, of acmeId samplePlatform 9 ?b] m c v t
  obtain d' where u: "updatePharmacy samplePlatform twoDb 9 acmeId ?b
              = (\<lparr>status = 200, reply = Json_pharmacy d'\<rparr>,
                 twoDb\<lparr>docs := replaceDoc (oid acmeDoc) d' (docs twoDb)\<rparr>)"
    and mf: "mergedFrom samplePlatform ?b acmeDoc d'" and va: "validate d' = []"
    by blast
  have tw: "trim (js ''acme.example'') = js ''acme.example''" by code_simp
  from mf have "website d' = Some (js ''acme.example'')" "name d' = name acmeDoc"
    by (simp_all add: mergedFrom_def emptyBody_def tw)
  with u mf va have 5: "\<exists>d'. updatePharmacy samplePlatform twoDb 9 acmeId ?b
              = (\<lparr>status = 200, reply = Json_pharmacy d'\<rparr>,
                 twoDb\<lparr>docs := replaceDoc (oid acmeDoc) d' (docs twoDb)\<rparr>)
            \<and> mergedFrom samplePlatform ?b acmeDoc d'
            \<and> website d' = Some (js ''acme.example'') \<and> name d' = name acmeDoc
            \<and> validate d' = []"
    by blast
  from h n 1 k k' 2 m c vb 3 vd td 4 v t 5 show ?thesis by blast
qed

text \<open>
  The claim as it is written fails: \<open>updatedAt\<close> is a top-level path that the body
  below does not carry, and the update changes it from 7 to 9.
\<close>

theorem update_merges_counterexample:
  "docs acmeDb = [acmeDoc]
   \<and> updatePharmacy samplePlatform acmeDb 9 acmeId (emptyBody\<lparr>body_website := Some (js ''acme.example'')\<rparr>)
       = (\<lparr>status = 200,
           reply = Json_pharmacy (acmeDoc\<lparr>website := Some (js ''acme.example''), updatedAt := Some 9\<rparr>)\<rparr>,
          acmeDb\<lparr>docs := [acmeDoc\<lparr>website := Some (js ''acme.example''), updatedAt := Some 9\<rparr>]\<rparr>)
   \<and> updatedAt acmeDoc = Some 7
   \<and> updatedAt (acmeDoc\<lparr>website := Some (js ''acme.example''), updatedAt := Some 9\<rparr>)
       \<noteq> updatedAt acmeDoc"
  by code_simp

subsection \<open>Deleting a document\<close>

lemma getPharmacy_stored:
  assumes "storeInv s" and "d \<in> set (docs s)" and "castObjectId i = Some (oid d)"
  shows "getPharmacy s i =
     (if isActive d then \<lparr>status = 200, reply = Json_pharmacy d\<rparr>
      else \<lparr>status = 404, reply = Json_msg ''Pharmacy not found''\<rparr>)"
  by (simp add: getPharmacy_def findById_stored [OF assms])

text \<open>
  Claim C6, as amended. On a store that satisfies its invariant, a delete request for
  the id of a stored document is answered 200 with the confirmation message. The
  document stays in the collection, in its place and with its id; its \<open>isActive\<close> is
  false; its \<open>updatedAt\<close> is the time of the delete when the document was active, and
  is unchanged otherwise; every other path and every other document is as before. A
  get-by-id request for the id is then answered 404.
\<close>

theorem delete_soft:
  assumes "storeInv s" and "d \<in> set (docs s)" and "castObjectId i = Some (oid d)"
  shows "\<exists>s' d'. deletePharmacy s now i
              = (\<lparr>status = 200, reply = Json_msg ''Pharmacy marked as inactive''\<rparr>, s')
           \<and> d' = d\<lparr>isActive := False,
                     updatedAt := (if isActive d then Some now else updatedAt d)\<rparr>
           \<and> docs s' = replaceDoc (oid d) d' (docs s)
           \<and> d' \<in> set (docs s')
           \<and> map oid (docs s') = map oid (docs s)
           \<and> (\<forall>e \<in> set (docs s). oid e \<noteq> oid d \<longrightarrow> e \<in> set (docs s'))
           \<and> status (getPharmacy s' i) = 404"
proof -
  let ?d' = "d\<lparr>isActive := False, updatedAt := (if isActive d then Some now else updatedAt d)\<rparr>"
  let ?s' = "s\<lparr>docs := replaceDoc (oid d) ?d' (docs s)\<rparr>"
  have 1: "deletePharmacy s now i
      = (\<lparr>status = 200, reply = Json_msg ''Pharmacy marked as inactive''\<rparr>, ?s')"
    by (rule deletePharmacy_stored [OF assms])
  have 2: "?d' \<in> set (docs ?s')"
    using assms(2) by (simp add: replaceDoc_mem)
  have 3: "map oid (docs ?s') = map oid (docs s)"
    by (simp add: replaceDoc_oid)
  have 4: "\<forall>e \<in> set (docs s). oid e \<noteq> oid d \<longrightarrow> e \<in> set (docs ?s')"
    by (simp add: replaceDoc_others)
  have "storeInv (snd (deletePharmacy s now i))"
    using assms(1) by (rule storeInv_deletePharmacy)
  then have inv: "storeInv ?s'" by (simp add: 1)
  have "castObjectId i = Some (oid ?d')" using assms(3) by simp
  with inv 2 have 5: "status (getPharmacy ?s' i) = 404"
    by (simp add: getPharmacy_stored)
  from 1 2 3 4 5 show ?thesis by simp
qed

theorem delete_soft_witness:
  "storeInv acmeDb \<and> acmeDoc \<in> set (docs acmeDb) \<and> castObjectId acmeId = Some (oid acmeDoc)
   \<and> (\<exists>s'. deletePharmacy acmeDb 9 acmeId
              = (\<lparr>status = 200, reply = Json_msg ''Pharmacy marked as inactive''\<rparr>, s')
            \<and> length (docs s') = length (docs acmeDb)
            \<and> status (getPharmacy s' acmeId) = 404)"
proof -
  have h: "storeInv acmeDb" by code_simp
  have m: "acmeDoc \<in> set (docs acmeDb)" by code_simp
  have c: "castObjectId acmeId = Some (oid acmeDoc)" by code_simp
  from delete_soft [OF h m c, of 9] obtain s' where
    1: "deletePharmacy acmeDb 9 acmeId
          = (\<lparr>status = 200, reply = Json_msg ''Pharmacy marked as inactive''\<rparr>, s')"
    and 2: "map oid (docs s') = map oid (docs acmeDb)"
    and 3: "status (getPharmacy s' acmeId) = 404"
    by blast
  from 2 have "length (docs s') = length (docs acmeDb)"
    by (rule map_eq_imp_length_eq)
  with h m c 1 3 show ?thesis by blast
qed

text \<open>
  The claim as it is written fails: besides \<open>isActive\<close>, the delete changes
  \<open>updatedAt\<close>, here from 7 to 9.
\<close>

theorem delete_soft_counterexample:
  "docs acmeDb = [acmeDoc]
   \<and> deletePharmacy acmeDb 9 acmeId
       = (\<lparr>status = 200, reply = Json_msg ''Pharmacy marked as inactive''\<rparr>,
          acmeDb\<lparr>docs := [acmeDoc\<lparr>isActive := False, updatedAt := Some 9\<rparr>]\<rparr>)
   \<and> updatedAt acmeDoc = Some 7
   \<and> updatedAt (acmeDoc\<lparr>isActive := False, updatedAt := Some 9\<rparr>) \<noteq> updatedAt acmeDoc"
  by code_simp

text \<open>
  Claim C10. On a store that satisfies its invariant, for a stored document that is
  not active: get-by-id answers 404; delete answers 200 and leaves the store as it is;
  update never answers 404 and answers 200 exactly when the body passes the update
  validators and takes no other document's \<open>licenseNumber\<close>; a body that only sets
  \<open>isActive\<close> to true is answered 200; and after an update answered 200 whose body
  sets \<open>isActive\<close> to true, get-by-id answers 200.
\<close>

theorem inactive_update_delete:
  assumes "storeInv s" and "d \<in> set (docs s)" and "castObjectId i = Some (oid d)"
    and "\<not> isActive d"
  shows "getPharmacy s i = \<lparr>status = 404, reply = Json_msg ''Pharmacy not found''\<rparr>
         \<and> deletePharmacy s now i
             = (\<lparr>status = 200, reply = Json_msg ''Pharmacy marked as inactive''\<rparr>, s)
         \<and> (status (fst (updatePharmacy P s now i b)) = 200
              \<longleftrightarrow> updateValidators (castUpdate P b) = [] \<and> \<not> licenseTaken s d b)
         \<and> status (fst (updatePharmacy P s now i b)) \<noteq> 404
         \<and> status (fst (updatePharmacy P s now i (emptyBody\<lparr>body_isActive := Some True\<rparr>))) = 200
         \<and> (body_isActive b = Some True \<and> status (fst (updatePharmacy P s now i b)) = 200 \<longrightarrow>
              status (getPharmacy (snd (updatePharmacy P s now i b)) i) = 200)"
proof -
  note a = assms(1-3)
  have 1: "getPharmacy s i = \<lparr>status = 404, reply = Json_msg ''Pharmacy not found''\<rparr>"
    using assms(4) by (simp add: getPharmacy_stored [OF a])
  from assms(4) have r: "d\<lparr>isActive := False,
      updatedAt := (if isActive d then Some now else updatedAt d)\<rparr> = d"
    by (cases d) simp
  from a have dist: "distinct (map oid (docs s))" by (simp add: storeInv_def)
  have "s\<lparr>docs := replaceDoc (oid d)
             (d\<lparr>isActive := False,
                updatedAt := (if isActive d then Some now else updatedAt d)\<rparr>) (docs s)\<rparr> = s"
    unfolding r replaceDoc_same [OF dist assms(2)] by simp
  then have 2: "deletePharmacy s now i
      = (\<lparr>status = 200, reply = Json_msg ''Pharmacy marked as inactive''\<rparr>, s)"
    unfolding deletePharmacy_stored [OF a] by (simp only:)
  note o = updatePharmacy_outcomes [OF a]
  have 3: "status (fst (updatePharmacy P s now i b)) = 200
      \<longleftrightarrow> updateValidators (castUpdate P b) = [] \<and> \<not> licenseTaken s d b"
    by (simp add: o)
  have 4: "status (fst (updatePharmacy P s now i b)) \<noteq> 404"
    by (simp add: o)
  have "updateValidators (castUpdate P (emptyBody\<lparr>body_isActive := Some True\<rparr>)) = []"
    by (simp add: updateValidators_def castUpdate_def emptyBody_def matchString_def)
  moreover have "\<not> licenseTaken s d (emptyBody\<lparr>body_isActive := Some True\<rparr>)"
    by (simp add: licenseTaken_def emptyBody_def)
  ultimately have 5:
    "status (fst (updatePharmacy P s now i (emptyBody\<lparr>body_isActive := Some True\<rparr>))) = 200"
    by (simp add: o)
  have 6: "status (getPharmacy (snd (updatePharmacy P s now i b)) i) = 200"
    if t: "body_isActive b = Some True" and ok: "status (fst (updatePharmacy P s now i b)) = 200"
  proof -
    let ?d' = "applySet (castUpdate P b) now d"
    from ok 3 have p: "updateValidators (castUpdate P b) = []" "\<not> licenseTaken s d b" by simp_all
    then have s': "snd (updatePharmacy P s now i b) = s\<lparr>docs := replaceDoc (oid d) ?d' (docs s)\<rparr>"
      by (simp add: o)
    have inv: "storeInv (snd (updatePharmacy P s now i b))"
      using assms(1) by (rule storeInv_updatePharmacy)
    have mem: "?d' \<in> set (docs (snd (updatePharmacy P s now i b)))"
      using assms(2) by (simp add: s' replaceDoc_mem)
    have c: "castObjectId i = Some (oid ?d')"
      using assms(3) by (simp add: applySet_def)
    have act: "isActive ?d'"
      using t by (simp add: applySet_def castUpdate_def)
    show ?thesis
      using act by (simp add: getPharmacy_stored [OF inv mem c])
  qed
  from 1 2 3 4 5 6 show ?thesis by blast
qed

theorem inactive_update_delete_witness:
  "storeInv deletedDb \<and> deletedDoc \<in> set (docs deletedDb)
   \<and> castObjectId acmeId = Some (oid deletedDoc) \<and> \<not> isActive deletedDoc
   \<and> status (getPharmacy deletedDb acmeId) = 404
   \<and> status (fst (deletePharmacy deletedDb 10 acmeId)) = 200
   \<and> status (fst (updatePharmacy samplePlatform deletedDb 10 acmeId (emptyBody\<lparr>body_isActive := Some True\<rparr>)))
       = 200
   \<and> status (getPharmacy
        (snd (updatePharmacy samplePlatform deletedDb 10 acmeId (emptyBody\<lparr>body_isActive := Some True\<rparr>)))
        acmeId) = 200"
proof -
  let ?b = "emptyBody\<lparr>body_isActive := Some True\<rparr>"
  have h: "storeInv deletedDb" by code_simp
  have m: "deletedDoc \<in> set (docs deletedDb)" by code_simp
  have c: "castObjectId acmeId = Some (oid deletedDoc)" by code_simp
  have n: "\<not> isActive deletedDoc" by code_simp
  have t: "body_isActive ?b = Some True" by code_simp
  note w = inactive_update_delete [OF h m c n, of 10 samplePlatform ?b]
  from w have 1: "status (getPharmacy deletedDb acmeId) = 404" by simp
  from w have 2: "status (fst (deletePharmacy deletedDb 10 acmeId)) = 200" by simp
  from w have 3: "status (fst (updatePharmacy samplePlatform deletedDb 10 acmeId ?b)) = 200" by blast
  from w t 3 have 4: "status (getPharmacy (snd (updatePharmacy samplePlatform deletedDb 10 acmeId ?b)) acmeId) = 200"
    by blast
  from h m c n 1 2 3 4 show ?thesis by blast
qed

subsection \<open>Validation of opening hours\<close>

lemma acceptedHours_swap:
  "acceptedHours h \<Longrightarrow> acceptedHours (h\<lparr>openTime := closeTime h, closeTime := openTime h\<rparr>)"
  by (simp add: acceptedHours_def)

lemma create_invalid:
  assumes "validate (newPharmacy P (nextId s) b) \<noteq> []"
  shows "createPharmacy P s now b
     = (\<lparr>status = 400,
         reply = Json_errors ''Validation Error'' (validate (newPharmacy P (nextId s) b))\<rparr>,
        s\<lparr>nextId := Suc (nextId s)\<rparr>)"
  using assms by (simp add: createPharmacy_cases Let_def)

lemma castUpdate_openingHours: "body_openingHours (castUpdate P b) = body_openingHours b"
  by (simp add: castUpdate_def)

lemma castUpdate_email: "body_email (castUpdate P b) = map_option (castEmail P) (body_email b)"
  by (simp add: castUpdate_def)

lemma updateValidators_without_openingHours:
  assumes "body_openingHours b = Some hs" and "validateOpeningHours hs = []"
  shows "updateValidators (castUpdate P b) = updateValidators (castUpdate P (b\<lparr>body_openingHours := None\<rparr>))"
  using assms by (simp add: updateValidators_def castUpdate_def)

lemma validate_without_openingHours:
  assumes "body_openingHours b = Some hs" and "validateOpeningHours hs = []"
  shows "validate (newPharmacy P k b) = validate (newPharmacy P k (b\<lparr>body_openingHours := None\<rparr>))"
  using assms by (simp add: validate_newPharmacy validateOpeningHours_def)

text \<open>
  Claim C7, as amended. An entry of \<open>openingHours\<close> passes validation exactly when its
  \<open>dayOfWeek\<close> is a number from 0 to 6 and its \<open>openTime\<close> and \<open>closeTime\<close> are in the
  24-hour format (hours 00 to 23, minutes 00 to 59). A create request, and an update
  request for a stored document, with an entry that does not pass is answered 400 with
  the validation message; entries that all pass add no error. Exchanging the two times
  of an entry that passes gives an entry that passes: no check relates them.
  \<open>25:00\<close> is refused and \<open>09:00\<close> is accepted.
\<close>

theorem opening_hours_validated:
  "(validateHours j h = [] \<longleftrightarrow> acceptedHours h)
   \<and> (body_openingHours b = Some hs \<and> (\<exists>x \<in> set hs. \<not> acceptedHours x) \<longrightarrow>
        (\<exists>errors. errors \<noteq> []
           \<and> createPharmacy P s now b
               = (\<lparr>status = 400, reply = Json_errors ''Validation Error'' errors\<rparr>,
                  s\<lparr>nextId := Suc (nextId s)\<rparr>)))
   \<and> (storeInv s \<and> d \<in> set (docs s) \<and> castObjectId i = Some (oid d)
        \<and> body_openingHours b = Some hs \<and> (\<exists>x \<in> set hs. \<not> acceptedHours x) \<longrightarrow>
        (\<exists>errors. errors \<noteq> []
           \<and> updatePharmacy P s now i b
               = (\<lparr>status = 400, reply = Json_errors ''Validation Error'' errors\<rparr>, s)))
   \<and> (body_openingHours b = Some hs \<and> (\<forall>x \<in> set hs. acceptedHours x) \<longrightarrow>
        validate (newPharmacy P k b) = validate (newPharmacy P k (b\<lparr>body_openingHours := None\<rparr>))
        \<and> updateValidators (castUpdate P b)
            = updateValidators (castUpdate P (b\<lparr>body_openingHours := None\<rparr>)))
   \<and> (acceptedHours h \<longrightarrow> acceptedHours (h\<lparr>openTime := closeTime h, closeTime := openTime h\<rparr>))
   \<and> \<not> acceptedHours \<lparr>dayOfWeek = Some 1, openTime = Some (js ''25:00''), closeTime = Some (js ''18:00'')\<rparr>
   \<and> acceptedHours \<lparr>dayOfWeek = Some 1, openTime = Some (js ''09:00''), closeTime = Some (js ''18:00'')\<rparr>
   \<and> acceptedHours \<lparr>dayOfWeek = Some 1, openTime = Some (js ''18:00''), closeTime = Some (js ''09:00'')\<rparr>"
proof -
  have 1: "validateHours j h = [] \<longleftrightarrow> acceptedHours h"
    by (rule validateHours_accepted)
  have 2: "\<exists>errors. errors \<noteq> []
           \<and> createPharmacy P s now b
               = (\<lparr>status = 400, reply = Json_errors ''Validation Error'' errors\<rparr>,
                  s\<lparr>nextId := Suc (nextId s)\<rparr>)"
    if "body_openingHours b = Some hs \<and> (\<exists>x \<in> set hs. \<not> acceptedHours x)"
  proof -
    from that have "validateOpeningHours hs \<noteq> []"
      by (simp add: validateOpeningHours_accepted)
    with that have "validate (newPharmacy P (nextId s) b) \<noteq> []"
      by (simp add: validate_newPharmacy)
    then show ?thesis
      using create_invalid by blast
  qed
  have 3: "\<exists>errors. errors \<noteq> []
           \<and> updatePharmacy P s now i b
               = (\<lparr>status = 400, reply = Json_errors ''Validation Error'' errors\<rparr>, s)"
    if "storeInv s \<and> d \<in> set (docs s) \<and> castObjectId i = Some (oid d)
        \<and> body_openingHours b = Some hs \<and> (\<exists>x \<in> set hs. \<not> acceptedHours x)"
  proof -
    from that have "validateOpeningHours hs \<noteq> []"
      by (simp add: validateOpeningHours_accepted)
    with that have "updateValidators (castUpdate P b) \<noteq> []"
      by (simp add: updateValidators_def castUpdate_openingHours)
    moreover from that have "storeInv s" "d \<in> set (docs s)" "castObjectId i = Some (oid d)"
      by simp_all
    ultimately show ?thesis
      by (simp add: updatePharmacy_outcomes)
  qed
  have 4: "validate (newPharmacy P k b) = validate (newPharmacy P k (b\<lparr>body_openingHours := None\<rparr>))
        \<and> updateValidators (castUpdate P b)
            = updateValidators (castUpdate P (b\<lparr>body_openingHours := None\<rparr>))"
    if "body_openingHours b = Some hs \<and> (\<forall>x \<in> set hs. acceptedHours x)"
  proof -
    from that have "body_openingHours b = Some hs" "validateOpeningHours hs = []"
      by (simp_all add: validateOpeningHours_accepted)
    then show ?thesis
      using validate_without_openingHours updateValidators_without_openingHours by blast
  qed
  have 5: "acceptedHours h \<longrightarrow> acceptedHours (h\<lparr>openTime := closeTime h, closeTime := openTime h\<rparr>)"
    by (simp add: acceptedHours_swap)
  have 6: "\<not> acceptedHours \<lparr>dayOfWeek = Some 1, openTime = Some (js ''25:00''), closeTime = Some (js ''18:00'')\<rparr>"
    unfolding validateHours_accepted [of 0, symmetric] by code_simp
  have 7: "acceptedHours \<lparr>dayOfWeek = Some 1, openTime = Some (js ''09:00''), closeTime = Some (js ''18:00'')\<rparr>"
    unfolding validateHours_accepted [of 0, symmetric] by code_simp
  have 8: "acceptedHours \<lparr>dayOfWeek = Some 1, openTime = Some (js ''18:00''), closeTime = Some (js ''09:00'')\<rparr>"
    unfolding validateHours_accepted [of 0, symmetric] by code_simp
  from 1 2 3 4 5 6 7 8 show ?thesis by blast
qed

lemma half_not_int: "\<not> specDayOfWeek (5 / 2)"
proof -
  have "(5 / 2 :: rat) \<notin> \<int>"
  proof
    assume "(5 / 2 :: rat) \<in> \<int>"
    then obtain n :: int where "(5 / 2 :: rat) = of_int n"
      by (auto elim: Ints_cases)
    then have "(of_int (2 * n) :: rat) = of_int 5" by simp
    then have "2 * n = 5" by (simp only: of_int_eq_iff)
    then show False by presburger
  qed
  then show ?thesis by (simp add: specDayOfWeek_def)
qed

text \<open>
  The claim as it is written fails: the day 5/2 is not an integer, and an entry with
  that day passes validation and is stored.
\<close>

theorem opening_hours_counterexample:
  "dayOfWeek halfDayHours = Some (5 / 2)
   \<and> \<not> specDayOfWeek (5 / 2)
   \<and> validateHours 0 halfDayHours = []
   \<and> status (fst (createPharmacy samplePlatform emptyDb 7 (acmeBody\<lparr>body_openingHours := Some [halfDayHours]\<rparr>)))
       = 201"
proof -
  have "dayOfWeek halfDayHours = Some (5 / 2)" by code_simp
  moreover have "validateHours 0 halfDayHours = []" by code_simp
  moreover have
    "status (fst (createPharmacy samplePlatform emptyDb 7 (acmeBody\<lparr>body_openingHours := Some [halfDayHours]\<rparr>)))
       = 201"
    by code_simp
  ultimately show ?thesis using half_not_int by simp
qed

theorem opening_hours_validated_witness:
  "body_openingHours (acmeBody\<lparr>body_openingHours := Some [lateHours]\<rparr>) = Some [lateHours]
   \<and> (\<exists>x \<in> set [lateHours]. \<not> acceptedHours x)
   \<and> storeInv acmeDb \<and> acmeDoc \<in> set (docs acmeDb) \<and> castObjectId acmeId = Some (oid acmeDoc)
   \<and> status (fst (createPharmacy samplePlatform emptyDb 7 (acmeBody\<lparr>body_openingHours := Some [lateHours]\<rparr>)))
       = 400
   \<and> status (fst (updatePharmacy samplePlatform acmeDb 9 acmeId
        (acmeBody\<lparr>body_openingHours := Some [lateHours]\<rparr>))) = 400
   \<and> acceptedHours \<lparr>dayOfWeek = Some 1, openTime = Some (js ''09:00''), closeTime = Some (js ''18:00'')\<rparr>
   \<and> validate (newPharmacy samplePlatform 1 acmeBody)
       = validate (newPharmacy samplePlatform 1 (acmeBody\<lparr>body_openingHours := None\<rparr>))"
proof -
  let ?b = "acmeBody\<lparr>body_openingHours := Some [lateHours]\<rparr>"
  let ?ok = "\<lparr>dayOfWeek = Some 1, openTime = Some (js ''09:00''), closeTime = Some (js ''18:00'')\<rparr>"
  have b: "body_openingHours ?b = Some [lateHours]" by code_simp
  have "validateHours 0 lateHours \<noteq> []" by code_simp
  then have x: "\<exists>x \<in> set [lateHours]. \<not> acceptedHours x"
    using opening_hours_validated [where P = samplePlatform and j = 0 and h = lateHours] by simp
  have h: "storeInv acmeDb" by code_simp
  have m: "acmeDoc \<in> set (docs acmeDb)" by code_simp
  have c: "castObjectId acmeId = Some (oid acmeDoc)" by code_simp
  note w = opening_hours_validated [where P = samplePlatform and b = ?b and hs = "[lateHours]" and s = acmeDb
      and d = acmeDoc and i = acmeId and now = 9]
  note w0 = opening_hours_validated [where P = samplePlatform and b = ?b and hs = "[lateHours]" and s = emptyDb
      and now = 7]
  from w0 b x have 1: "status (fst (createPharmacy samplePlatform emptyDb 7 ?b)) = 400"
    by force
  from w b x h m c have 2: "status (fst (updatePharmacy samplePlatform acmeDb 9 acmeId ?b)) = 400"
    by force
  have b': "body_openingHours acmeBody = Some [?ok]" by code_simp
  have "validateHours 0 ?ok = []" by code_simp
  then have a: "\<forall>x \<in> set [?ok]. acceptedHours x"
    using opening_hours_validated [where P = samplePlatform and j = 0 and h = ?ok] by simp
  from opening_hours_validated [where P = samplePlatform and b = acmeBody and hs = "[?ok]" and k = 1] b' a
  have 3: "validate (newPharmacy samplePlatform 1 acmeBody)
       = validate (newPharmacy samplePlatform 1 (acmeBody\<lparr>body_openingHours := None\<rparr>))"
    by blast
  from a have a': "acceptedHours ?ok" by simp
  from b x h m c 1 2 a' 3 show ?thesis by blast
qed

subsection \<open>Validation of the email\<close>

lemma matchString_email: "(matchString Email matchEmail (Some (castEmail P e)) = []) = acceptedEmail P e"
  by (simp add: matchString_def acceptedEmail_def matchEmail_spec)

lemma matchString_email_error:
  "\<not> acceptedEmail P e \<Longrightarrow> matchString Email matchEmail (Some (castEmail P e)) = [(Email, Regexp)]"
  by (simp add: matchString_def acceptedEmail_def matchEmail_spec)

lemma matchString_email_accepted:
  assumes "body_email b = None \<or> (\<exists>e. body_email b = Some e \<and> acceptedEmail P e)"
  shows "matchString Email matchEmail (map_option (castEmail P) (body_email b)) = []"
proof (cases "body_email b")
  case None
  then show ?thesis by (simp add: matchString_def)
next
  case (Some e)
  with assms have "acceptedEmail P e" by simp
  with Some show ?thesis by (simp add: matchString_email)
qed

lemma matchString_None: "matchString p rx None = []"
  by (simp add: matchString_def)

lemma validate_without_email:
  assumes "body_email b = None \<or> (\<exists>e. body_email b = Some e \<and> acceptedEmail P e)"
  shows "validate (newPharmacy P k b) = validate (newPharmacy P k (b\<lparr>body_email := None\<rparr>))"
  using matchString_email_accepted [OF assms]
  by (simp add: validate_newPharmacy matchString_None)

lemma updateValidators_without_email:
  assumes "body_email b = None \<or> (\<exists>e. body_email b = Some e \<and> acceptedEmail P e)"
  shows "updateValidators (castUpdate P b) = updateValidators (castUpdate P (b\<lparr>body_email := None\<rparr>))"
  using matchString_email_accepted [OF assms]
  by (simp add: updateValidators_def castUpdate_def matchString_None)

lemma createPharmacy_created:
  assumes "fst (createPharmacy P s now b) = \<lparr>status = 201, reply = Json_pharmacy d'\<rparr>"
  shows "d' = (newPharmacy P (nextId s) b)\<lparr>createdAt := Some now, updatedAt := Some now\<rparr>"
  using assms by (simp add: createPharmacy_cases Let_def split: if_splits)

lemma email_newPharmacy:
  "email (newPharmacy P k b) = map_option (\<lambda>x. trim (toLowerCase P x)) (body_email b)"
  by (cases "body_email b") (simp_all add: newPharmacy_def castEmail_def)

text \<open>
  Claim C8, as amended. An \<open>email\<close> of the body is lowercased and trimmed, and passes
  validation exactly when it is then empty or holds the pattern text@text.text. A
  create request, and an update request for a stored document, whose \<open>email\<close> does not
  pass is answered 400 with a validation error on \<open>email\<close>; an \<open>email\<close> that passes,
  or none, adds no error; a document answered by create or update holds the \<open>email\<close>
  lowercased and trimmed. \<open>not-an-email\<close> is refused and \<open>a@b.co\<close> is accepted, on
  every platform whose case mapping leaves these two texts as they are.
\<close>

theorem email_validated:
  "(matchString Email matchEmail (Some (castEmail P e)) = [] \<longleftrightarrow> acceptedEmail P e)
   \<and> (body_email b = Some e \<and> \<not> acceptedEmail P e \<longrightarrow>
        (\<exists>errors. (Email, Regexp) \<in> set errors
           \<and> createPharmacy P s now b
               = (\<lparr>status = 400, reply = Json_errors ''Validation Error'' errors\<rparr>,
                  s\<lparr>nextId := Suc (nextId s)\<rparr>)))
   \<and> (storeInv s \<and> d \<in> set (docs s) \<and> castObjectId i = Some (oid d)
        \<and> body_email b = Some e \<and> \<not> acceptedEmail P e \<longrightarrow>
        (\<exists>errors. (Email, Regexp) \<in> set errors
           \<and> updatePharmacy P s now i b
               = (\<lparr>status = 400, reply = Json_errors ''Validation Error'' errors\<rparr>, s)))
   \<and> (body_email b = None \<or> (\<exists>x. body_email b = Some x \<and> acceptedEmail P x) \<longrightarrow>
        validate (newPharmacy P k b) = validate (newPharmacy P k (b\<lparr>body_email := None\<rparr>))
        \<and> updateValidators (castUpdate P b)
            = updateValidators (castUpdate P (b\<lparr>body_email := None\<rparr>)))
   \<and> (\<forall>d'. fst (createPharmacy P s now b) = \<lparr>status = 201, reply = Json_pharmacy d'\<rparr> \<longrightarrow>
          email d' = map_option (\<lambda>x. trim (toLowerCase P x)) (body_email b))
   \<and> (\<forall>d'. storeInv s \<and> d \<in> set (docs s) \<and> castObjectId i = Some (oid d)
          \<and> body_email b = Some e
          \<and> fst (updatePharmacy P s now i b) = \<lparr>status = 200, reply = Json_pharmacy d'\<rparr> \<longrightarrow>
          email d' = Some (trim (toLowerCase P e)))
   \<and> (toLowerCase P (js ''not-an-email'') = js ''not-an-email'' \<longrightarrow>
        \<not> acceptedEmail P (js ''not-an-email''))
   \<and> (toLowerCase P (js ''a@b.co'') = js ''a@b.co'' \<longrightarrow> acceptedEmail P (js ''a@b.co''))"
proof -
  have 1: "matchString Email matchEmail (Some (castEmail P e)) = [] \<longleftrightarrow> acceptedEmail P e"
    by (rule matchString_email)
  have 2: "\<exists>errors. (Email, Regexp) \<in> set errors
           \<and> createPharmacy P s now b
               = (\<lparr>status = 400, reply = Json_errors ''Validation Error'' errors\<rparr>,
                  s\<lparr>nextId := Suc (nextId s)\<rparr>)"
    if "body_email b = Some e \<and> \<not> acceptedEmail P e"
  proof -
    from that have "(Email, Regexp) \<in> set (validate (newPharmacy P (nextId s) b))"
      by (simp add: validate_newPharmacy matchString_email_error)
    moreover from this have "validate (newPharmacy P (nextId s) b) \<noteq> []" by auto
    ultimately show ?thesis
      using create_invalid by blast
  qed
  have 3: "\<exists>errors. (Email, Regexp) \<in> set errors
           \<and> updatePharmacy P s now i b
               = (\<lparr>status = 400, reply = Json_errors ''Validation Error'' errors\<rparr>, s)"
    if "storeInv s \<and> d \<in> set (docs s) \<and> castObjectId i = Some (oid d)
        \<and> body_email b = Some e \<and> \<not> acceptedEmail P e"
  proof -
    from that have "(Email, Regexp) \<in> set (updateValidators (castUpdate P b))"
      by (simp add: updateValidators_def castUpdate_email matchString_email_error)
    moreover from this have "updateValidators (castUpdate P b) \<noteq> []" by auto
    moreover from that have "storeInv s" "d \<in> set (docs s)" "castObjectId i = Some (oid d)"
      by simp_all
    ultimately show ?thesis
      by (simp add: updatePharmacy_outcomes)
  qed
  have 4: "validate (newPharmacy P k b) = validate (newPharmacy P k (b\<lparr>body_email := None\<rparr>))
        \<and> updateValidators (castUpdate P b)
            = updateValidators (castUpdate P (b\<lparr>body_email := None\<rparr>))"
    if "body_email b = None \<or> (\<exists>x. body_email b = Some x \<and> acceptedEmail P x)"
    using that validate_without_email updateValidators_without_email by blast
  have 5: "\<forall>d'. fst (createPharmacy P s now b) = \<lparr>status = 201, reply = Json_pharmacy d'\<rparr> \<longrightarrow>
          email d' = map_option (\<lambda>x. trim (toLowerCase P x)) (body_email b)"
    by (auto dest!: createPharmacy_created simp: email_newPharmacy)
  have 6: "email d' = Some (trim (toLowerCase P e))"
    if "storeInv s \<and> d \<in> set (docs s) \<and> castObjectId i = Some (oid d) \<and> body_email b = Some e
        \<and> fst (updatePharmacy P s now i b) = \<lparr>status = 200, reply = Json_pharmacy d'\<rparr>" for d'
  proof -
    from that have a: "storeInv s" "d \<in> set (docs s)" "castObjectId i = Some (oid d)"
      by simp_all
    from that have "d' = applySet (castUpdate P b) now d"
      by (simp add: updatePharmacy_outcomes [OF a] split: if_splits)
    with that show ?thesis
      by (simp add: applySet_def castUpdate_def castEmail_def)
  qed
  have t7: "trim (js ''not-an-email'') = js ''not-an-email''" by code_simp
  have n7: "js ''not-an-email'' \<noteq> []" by code_simp
  have m7: "\<not> specEmail (js ''not-an-email'')"
    unfolding matchEmail_spec [symmetric] by code_simp
  have 7: "toLowerCase P (js ''not-an-email'') = js ''not-an-email'' \<longrightarrow>
        \<not> acceptedEmail P (js ''not-an-email'')"
    by (simp add: acceptedEmail_def castEmail_def t7 n7 m7)
  have t8: "trim (js ''a@b.co'') = js ''a@b.co''" by code_simp
  have m8: "specEmail (js ''a@b.co'')"
    unfolding matchEmail_spec [symmetric] by code_simp
  have 8: "toLowerCase P (js ''a@b.co'') = js ''a@b.co'' \<longrightarrow> acceptedEmail P (js ''a@b.co'')"
    by (simp add: acceptedEmail_def castEmail_def t8 m8)
  from 1 2 3 4 5 6 7 8 show ?thesis by blast
qed

theorem email_validated_witness:
  "body_email (acmeBody\<lparr>body_email := Some (js ''not-an-email'')\<rparr>) = Some (js ''not-an-email'')
   \<and> \<not> acceptedEmail samplePlatform (js ''not-an-email'')
   \<and> storeInv acmeDb \<and> acmeDoc \<in> set (docs acmeDb) \<and> castObjectId acmeId = Some (oid acmeDoc)
   \<and> status (fst (createPharmacy samplePlatform emptyDb 7 (acmeBody\<lparr>body_email := Some (js ''not-an-email'')\<rparr>)))
       = 400
   \<and> status (fst (updatePharmacy samplePlatform acmeDb 9 acmeId
        (acmeBody\<lparr>body_email := Some (js ''not-an-email'')\<rparr>))) = 400
   \<and> body_email acmeBody = Some (js ''a@b.co'') \<and> acceptedEmail samplePlatform (js ''a@b.co'')
   \<and> validate (newPharmacy samplePlatform 1 acmeBody) = validate (newPharmacy samplePlatform 1 (acmeBody\<lparr>body_email := None\<rparr>))
   \<and> fst (createPharmacy samplePlatform emptyDb 7 acmeBody) = \<lparr>status = 201, reply = Json_pharmacy acmeDoc\<rparr>
   \<and> email acmeDoc = map_option (\<lambda>x. trim (toLowerCase samplePlatform x)) (body_email acmeBody)
   \<and> body_email (emptyBody\<lparr>body_email := Some (js ''Info@Acme.Example'')\<rparr>)
       = Some (js ''Info@Acme.Example'')
   \<and> fst (updatePharmacy samplePlatform acmeDb 9 acmeId (emptyBody\<lparr>body_email := Some (js ''Info@Acme.Example'')\<rparr>))
       = \<lparr>status = 200,
          reply = Json_pharmacy (acmeDoc\<lparr>email := Some (js ''info@acme.example''),
                                          updatedAt := Some 9\<rparr>)\<rparr>
   \<and> email (acmeDoc\<lparr>email := Some (js ''info@acme.example''), updatedAt := Some 9\<rparr>)
       = Some (trim (toLowerCase samplePlatform (js ''Info@Acme.Example'')))"
proof -
  let ?bad = "acmeBody\<lparr>body_email := Some (js ''not-an-email'')\<rparr>"
  let ?up = "emptyBody\<lparr>body_email := Some (js ''Info@Acme.Example'')\<rparr>"
  let ?d' = "acmeDoc\<lparr>email := Some (js ''info@acme.example''), updatedAt := Some 9\<rparr>"
  have b: "body_email ?bad = Some (js ''not-an-email'')" by code_simp
  have "toLowerCase samplePlatform (js ''not-an-email'') = js ''not-an-email''" by code_simp
  then have n: "\<not> acceptedEmail samplePlatform (js ''not-an-email'')"
    using email_validated [where P = samplePlatform] by blast
  have h: "storeInv acmeDb" by code_simp
  have m: "acmeDoc \<in> set (docs acmeDb)" by code_simp
  have c: "castObjectId acmeId = Some (oid acmeDoc)" by code_simp
  from email_validated [where P = samplePlatform and b = ?bad and e = "(js ''not-an-email'')" and s = emptyDb and now = 7] b n
  have 1: "status (fst (createPharmacy samplePlatform emptyDb 7 ?bad)) = 400"
    by force
  from email_validated [where P = samplePlatform and b = ?bad and e = "(js ''not-an-email'')" and s = acmeDb and now = 9
      and d = acmeDoc and i = acmeId] b n h m c
  have 2: "status (fst (updatePharmacy samplePlatform acmeDb 9 acmeId ?bad)) = 400"
    by force
  have b': "body_email acmeBody = Some (js ''a@b.co'')" by code_simp
  have "toLowerCase samplePlatform (js ''a@b.co'') = js ''a@b.co''" by code_simp
  then have a: "acceptedEmail samplePlatform (js ''a@b.co'')"
    using email_validated [where P = samplePlatform] by blast
  from email_validated [where P = samplePlatform and b = acmeBody and k = 1] b' a
  have 3: "validate (newPharmacy samplePlatform 1 acmeBody)
      = validate (newPharmacy samplePlatform 1 (acmeBody\<lparr>body_email := None\<rparr>))"
    by blast
  have cr: "fst (createPharmacy samplePlatform emptyDb 7 acmeBody)
      = \<lparr>status = 201, reply = Json_pharmacy acmeDoc\<rparr>"
    by code_simp
  from email_validated [where P = samplePlatform and b = acmeBody and s = emptyDb and now = 7] cr
  have 4: "email acmeDoc = map_option (\<lambda>x. trim (toLowerCase samplePlatform x)) (body_email acmeBody)"
    by blast
  have u: "body_email ?up = Some (js ''Info@Acme.Example'')" by code_simp
  have up: "fst (updatePharmacy samplePlatform acmeDb 9 acmeId ?up)
      = \<lparr>status = 200, reply = Json_pharmacy ?d'\<rparr>"
    by code_simp
  from email_validated [where P = samplePlatform and b = ?up and e = "(js ''Info@Acme.Example'')" and s = acmeDb
      and now = 9 and d = acmeDoc and i = acmeId] h m c u up
  have 5: "email ?d' = Some (trim (toLowerCase samplePlatform (js ''Info@Acme.Example'')))"
    by blast
  from b n h m c 1 2 b' a 3 cr 4 u up 5 show ?thesis by blast
qed

text \<open>
  The claim as it is written fails: an \<open>email\<close> that is given and empty does not hold
  the pattern, and it is accepted and stored. So is an \<open>email\<close> that is a no-break
  space (U+00A0), which is trimmed to the empty text.
\<close>

theorem email_counterexample:
  "castEmail samplePlatform [] = []
   \<and> \<not> specEmail []
   \<and> fst (createPharmacy samplePlatform emptyDb 7 (acmeBody\<lparr>body_email := Some []\<rparr>))
       = \<lparr>status = 201, reply = Json_pharmacy (acmeDoc\<lparr>email := Some []\<rparr>)\<rparr>
   \<and> castEmail samplePlatform [0xA0] = []
   \<and> fst (createPharmacy samplePlatform emptyDb 7 (acmeBody\<lparr>body_email := Some [0xA0]\<rparr>))
       = \<lparr>status = 201, reply = Json_pharmacy (acmeDoc\<lparr>email := Some []\<rparr>)\<rparr>"
proof -
  have "castEmail samplePlatform [] = []" by code_simp
  moreover have "\<not> specEmail []"
    unfolding matchEmail_spec [symmetric] by simp
  moreover have "fst (createPharmacy samplePlatform emptyDb 7 (acmeBody\<lparr>body_email := Some []\<rparr>))
       = \<lparr>status = 201, reply = Json_pharmacy (acmeDoc\<lparr>email := Some []\<rparr>)\<rparr>"
    by code_simp
  moreover have "castEmail samplePlatform [0xA0] = []" by code_simp
  moreover have
    "fst (createPharmacy samplePlatform emptyDb 7 (acmeBody\<lparr>body_email := Some [0xA0]\<rparr>))
       = \<lparr>status = 201, reply = Json_pharmacy (acmeDoc\<lparr>email := Some []\<rparr>)\<rparr>"
    by code_simp
  ultimately show ?thesis by blast
qed

end
